theory Spec2Isabelle
  imports Complex_Main
begin

section \<open>Values shared by the ingestion pipeline\<close>

text \<open>
  The pipeline (\<^verbatim>\<open>backend/src/data/ingestion\<close>) handles NumPy/Python floats. Only
  their classification matters to the code modelled here (\<^verbatim>\<open>np.isnan\<close>, the comparisons
  of the validation rules), so a float is a real number or one of the three special values
  of IEEE 754; rounding of finite results is not modelled.
\<close>

datatype float64 = Fin real | NaN | PosInf | NegInf

definition isnan :: "float64 \<Rightarrow> bool" where
  "isnan x = (x = NaN)"

definition isfinite :: "float64 \<Rightarrow> bool" where
  "isfinite x = (case x of Fin r \<Rightarrow> True | NaN \<Rightarrow> False | PosInf \<Rightarrow> False | NegInf \<Rightarrow> False)"

text \<open>\<^verbatim>\<open>x <= y\<close> on floats: every comparison with NaN is false.\<close>

fun fle :: "float64 \<Rightarrow> float64 \<Rightarrow> bool" where
  "fle NaN y = False"
| "fle x NaN = False"
| "fle NegInf y = True"
| "fle x PosInf = True"
| "fle (Fin a) (Fin b) = (a \<le> b)"
| "fle PosInf y = False"
| "fle x NegInf = False"

text \<open>
  Timestamps (timezone-aware \<^verbatim>\<open>datetime\<close> values) are microseconds since
  1950-01-01 00:00 UTC, the reference date of the files.
\<close>

type_synonym datetime = int

section \<open>Parsed profiles (parsers.py, dataclass ArgoProfile)\<close>

record ArgoProfile =
  float_id :: string
  cycle_number :: int
  profile_id :: string
  data_mode :: string
  latitude :: float64
  longitude :: float64
  date_time :: datetime
  platform_number :: "string option"
  project_name :: "string option"
  pi_name :: "string option"
  pressure :: "float64 list option"
  pressure_qc :: "string list option"
  temperature :: "float64 list option"
  temperature_qc :: "string list option"
  temperature_adjusted :: "float64 list option"
  temperature_adjusted_qc :: "string list option"
  salinity :: "float64 list option"
  salinity_qc :: "string list option"
  salinity_adjusted :: "float64 list option"
  salinity_adjusted_qc :: "string list option"
  oxygen :: "float64 list option"
  oxygen_qc :: "string list option"
  chlorophyll :: "float64 list option"
  chlorophyll_qc :: "string list option"
  position_qc :: "string option"
  date_qc :: "string option"

section \<open>Database models (db/models.py)\<close>

text \<open>
  One record per mapped class, a field per column (prefix \<open>f_\<close>, \<open>dp_\<close>, \<open>m_\<close>, \<open>l_\<close>),
  \<open>None\<close> for an attribute that is unset or NULL. The measurement model also carries the
  two plain attributes \<^verbatim>\<open>temperature_adjusted_qc\<close> and \<^verbatim>\<open>salinity_adjusted_qc\<close> that the
  mapper sets although the table has no such column.

  The classes declare \<^verbatim>\<open>float_id\<close> of \<^verbatim>\<open>argo_floats\<close> and \<^verbatim>\<open>profile_id\<close> of
  \<^verbatim>\<open>argo_profiles\<close> with \<^verbatim>\<open>unique=True\<close>. On \<^verbatim>\<open>argo_measurements\<close> the pair
  \<^verbatim>\<open>(profile_id, pressure)\<close> has the plain index \<^verbatim>\<open>ix_measurement_profile_pressure\<close>
  only: the table has no unique constraint besides its primary key.

  An integer attribute holds a Python \<^verbatim>\<open>int\<close> or a NumPy integer; the two behave alike in
  Python and differ at the database driver.
\<close>

datatype py_int = Py_int nat | Np_int64 nat

record ArgoFloat =
  f_id :: "nat option"
  f_float_id :: string
  f_platform_number :: "string option"
  f_wmo_number :: "string option"
  f_project_name :: "string option"
  f_pi_name :: "string option"
  f_institution :: "string option"
  f_wmo_inst_type :: "string option"
  f_status :: "string option"
  f_deployment_date :: "datetime option"
  f_last_contact_date :: "datetime option"
  f_last_latitude :: "float64 option"
  f_last_longitude :: "float64 option"
  f_total_profiles :: "int option"
  f_first_profile_date :: "datetime option"
  f_last_profile_date :: "datetime option"
  f_created_at :: "datetime option"
  f_updated_at :: "datetime option"

record DbArgoProfile =
  dp_profile_id :: string
  dp_float_id :: string
  dp_cycle_number :: int
  dp_data_mode :: string
  dp_latitude :: float64
  dp_longitude :: float64
  dp_measurement_date :: datetime
  dp_data_points :: py_int
  dp_max_pressure :: "float64 option"
  dp_min_pressure :: "float64 option"
  dp_quality_flag :: string

record ArgoMeasurement =
  m_profile_id :: string
  m_pressure :: "float64 option"
  m_depth :: "float64 option"
  m_pressure_qc :: "string option"
  m_temperature :: "float64 option"
  m_temperature_qc :: "string option"
  m_temperature_adjusted :: "float64 option"
  m_temperature_adjusted_qc :: "string option"
  m_salinity :: "float64 option"
  m_salinity_qc :: "string option"
  m_salinity_adjusted :: "float64 option"
  m_salinity_adjusted_qc :: "string option"
  m_oxygen :: "float64 option"
  m_oxygen_qc :: "string option"
  m_chlorophyll_a :: "float64 option"
  m_chlorophyll_a_qc :: "string option"

section \<open>Measurement mapping (mappers.py, ArgoDataMapper)\<close>

text \<open>\<^verbatim>\<open>ArgoMeasurement(profile_id=..., pressure=..., depth=...)\<close>: every other attribute unset.\<close>

definition new_measurement :: "string \<Rightarrow> float64 \<Rightarrow> float64 \<Rightarrow> ArgoMeasurement" where
  "new_measurement pid p d =
     \<lparr> m_profile_id = pid, m_pressure = Some p, m_depth = Some d, m_pressure_qc = None,
       m_temperature = None, m_temperature_qc = None,
       m_temperature_adjusted = None, m_temperature_adjusted_qc = None,
       m_salinity = None, m_salinity_qc = None,
       m_salinity_adjusted = None, m_salinity_adjusted_qc = None,
       m_oxygen = None, m_oxygen_qc = None,
       m_chlorophyll_a = None, m_chlorophyll_a_qc = None \<rparr>"

text \<open>\<^verbatim>\<open>pressure / 1.025\<close>; the special values pass through the division unchanged.\<close>

definition pressure_to_depth :: "float64 \<Rightarrow> float64" where
  "pressure_to_depth p = (case p of Fin r \<Rightarrow> Fin (r / 1.025) | NaN \<Rightarrow> NaN
                          | PosInf \<Rightarrow> PosInf | NegInf \<Rightarrow> NegInf)"

text \<open>
  The guard shared by every scientific field:
  \<^verbatim>\<open>arr is not None and level_idx < len(arr) and not np.isnan(arr[level_idx])\<close>.
  It gives the value to store, if any.
\<close>

definition level_value :: "float64 list option \<Rightarrow> nat \<Rightarrow> float64 option" where
  "level_value arr level_idx =
     (case arr of None \<Rightarrow> None
      | Some xs \<Rightarrow> if level_idx < length xs \<and> \<not> isnan (xs ! level_idx)
                   then Some (xs ! level_idx) else None)"

text \<open>\<^verbatim>\<open>qc is not None and level_idx < len(qc)\<close>, giving \<^verbatim>\<open>str(qc[level_idx])\<close>.\<close>

definition level_qc :: "string list option \<Rightarrow> nat \<Rightarrow> string option" where
  "level_qc qc level_idx =
     (case qc of None \<Rightarrow> None
      | Some qs \<Rightarrow> if level_idx < length qs then Some (qs ! level_idx) else None)"

definition add_temperature_data :: "ArgoMeasurement \<Rightarrow> ArgoProfile \<Rightarrow> nat \<Rightarrow> ArgoMeasurement" where
  "add_temperature_data measurement profile level_idx =
     (let m1 = (case level_value (temperature profile) level_idx of
                  None \<Rightarrow> measurement
                | Some v \<Rightarrow>
                    (let m = measurement\<lparr>m_temperature := Some v\<rparr>
                     in case level_qc (temperature_qc profile) level_idx of
                          None \<Rightarrow> m
                        | Some q \<Rightarrow> m\<lparr>m_temperature_qc := Some q\<rparr>))
      in case level_value (temperature_adjusted profile) level_idx of
           None \<Rightarrow> m1
         | Some v \<Rightarrow>
             (let m = m1\<lparr>m_temperature_adjusted := Some v\<rparr>
              in case level_qc (temperature_adjusted_qc profile) level_idx of
                   None \<Rightarrow> m
                 | Some q \<Rightarrow> m\<lparr>m_temperature_adjusted_qc := Some q\<rparr>))"

definition add_salinity_data :: "ArgoMeasurement \<Rightarrow> ArgoProfile \<Rightarrow> nat \<Rightarrow> ArgoMeasurement" where
  "add_salinity_data measurement profile level_idx =
     (let m1 = (case level_value (salinity profile) level_idx of
                  None \<Rightarrow> measurement
                | Some v \<Rightarrow>
                    (let m = measurement\<lparr>m_salinity := Some v\<rparr>
                     in case level_qc (salinity_qc profile) level_idx of
                          None \<Rightarrow> m
                        | Some q \<Rightarrow> m\<lparr>m_salinity_qc := Some q\<rparr>))
      in case level_value (salinity_adjusted profile) level_idx of
           None \<Rightarrow> m1
         | Some v \<Rightarrow>
             (let m = m1\<lparr>m_salinity_adjusted := Some v\<rparr>
              in case level_qc (salinity_adjusted_qc profile) level_idx of
                   None \<Rightarrow> m
                 | Some q \<Rightarrow> m\<lparr>m_salinity_adjusted_qc := Some q\<rparr>))"

definition add_optional_measurements :: "ArgoMeasurement \<Rightarrow> ArgoProfile \<Rightarrow> nat \<Rightarrow> ArgoMeasurement" where
  "add_optional_measurements measurement profile level_idx =
     (let m1 = (case level_value (oxygen profile) level_idx of
                  None \<Rightarrow> measurement
                | Some v \<Rightarrow>
                    (let m = measurement\<lparr>m_oxygen := Some v\<rparr>
                     in case level_qc (oxygen_qc profile) level_idx of
                          None \<Rightarrow> m
                        | Some q \<Rightarrow> m\<lparr>m_oxygen_qc := Some q\<rparr>))
      in case level_value (chlorophyll profile) level_idx of
           None \<Rightarrow> m1
         | Some v \<Rightarrow>
             (let m = m1\<lparr>m_chlorophyll_a := Some v\<rparr>
              in case level_qc (chlorophyll_qc profile) level_idx of
                   None \<Rightarrow> m
                 | Some q \<Rightarrow> m\<lparr>m_chlorophyll_a_qc := Some q\<rparr>))"

definition has_valid_data :: "ArgoMeasurement \<Rightarrow> bool" where
  "has_valid_data measurement =
     (if m_pressure measurement = None then False
      else
        (let has_temp = (m_temperature measurement \<noteq> None \<or> m_temperature_adjusted measurement \<noteq> None);
             has_sal = (m_salinity measurement \<noteq> None \<or> m_salinity_adjusted measurement \<noteq> None);
             has_oxygen = (m_oxygen measurement \<noteq> None);
             has_chl = (m_chlorophyll_a measurement \<noteq> None)
         in has_temp \<or> has_sal \<or> has_oxygen \<or> has_chl))"

text \<open>
  One iteration of the loop over \<^verbatim>\<open>range(n_levels)\<close> in
  \<^verbatim>\<open>_create_measurement_models\<close>, for a level whose pressure is not NaN: the statements
  from the constructor call to the last \<^verbatim>\<open>_add_...\<close> call. \<open>pres\<close> is
  \<^verbatim>\<open>profile.pressure\<close>; the index is always below \<open>length pres\<close>.
\<close>

definition build_measurement :: "ArgoProfile \<Rightarrow> float64 list \<Rightarrow> nat \<Rightarrow> ArgoMeasurement" where
  "build_measurement profile pres level_idx =
     (let p = pres ! level_idx;
          m0 = new_measurement (profile_id profile) p (pressure_to_depth p);
          m1 = (case level_qc (pressure_qc profile) level_idx of
                  None \<Rightarrow> m0 | Some q \<Rightarrow> m0\<lparr>m_pressure_qc := Some q\<rparr>);
          m2 = add_temperature_data m1 profile level_idx;
          m3 = add_salinity_data m2 profile level_idx
      in add_optional_measurements m3 profile level_idx)"

text \<open>The whole loop body: \<open>measurements\<close> is the list built so far.\<close>

definition level_step :: "ArgoProfile \<Rightarrow> float64 list \<Rightarrow> nat \<Rightarrow> ArgoMeasurement list \<Rightarrow> ArgoMeasurement list" where
  "level_step profile pres level_idx measurements =
     (if isnan (pres ! level_idx) then measurements
      else
        (let measurement = build_measurement profile pres level_idx
         in if has_valid_data measurement then measurements @ [measurement] else measurements))"

definition create_measurement_models :: "ArgoProfile \<Rightarrow> DbArgoProfile \<Rightarrow> ArgoMeasurement list" where
  "create_measurement_models profile profile_model =
     (case pressure profile of
        None \<Rightarrow> []
      | Some pres \<Rightarrow> fold (level_step profile pres) [0..<length pres] [])"

text \<open>
  The scientific readings of a measurement, and what the profile offers at a level
  (\<open>None\<close> for an absent array, a short array or a NaN), in the same order.
\<close>

definition scientific_fields :: "ArgoMeasurement \<Rightarrow> float64 option list" where
  "scientific_fields m =
     [m_temperature m, m_temperature_adjusted m, m_salinity m, m_salinity_adjusted m,
      m_oxygen m, m_chlorophyll_a m]"

definition level_readings :: "ArgoProfile \<Rightarrow> nat \<Rightarrow> float64 option list" where
  "level_readings profile level_idx =
     [level_value (temperature profile) level_idx,
      level_value (temperature_adjusted profile) level_idx,
      level_value (salinity profile) level_idx,
      level_value (salinity_adjusted profile) level_idx,
      level_value (oxygen profile) level_idx,
      level_value (chlorophyll profile) level_idx]"

section \<open>Exceptions, messages, configuration and results (config.py)\<close>

text \<open>
  The exceptions that the modelled code can raise or receive. \<^verbatim>\<open>IntegrityError\<close> is a
  subclass of \<^verbatim>\<open>SQLAlchemyError\<close>; the clause
  \<^verbatim>\<open>except (SQLAlchemyError, IntegrityError)\<close> catches exactly these two.
  \<open>SQLAlchemyError\<close> stands for that class and its other subclasses
  (\<^verbatim>\<open>ProgrammingError\<close>, \<^verbatim>\<open>PendingRollbackError\<close>, \<^verbatim>\<open>OperationalError\<close>); the text
  names the subclass.
\<close>

datatype exn =
    ValueError string
  | KeyError string
  | IOError string
  | SQLAlchemyError string
  | IntegrityError string
  | RuntimeError string

definition is_sqlalchemy_error :: "exn \<Rightarrow> bool" where
  "is_sqlalchemy_error e =
     (case e of SQLAlchemyError s \<Rightarrow> True | IntegrityError s \<Rightarrow> True
      | ValueError s \<Rightarrow> False | KeyError s \<Rightarrow> False | IOError s \<Rightarrow> False
      | RuntimeError s \<Rightarrow> False)"

text \<open>
  An error or warning message is an f-string: literal text and interpolated values, kept
  in order and unformatted.
\<close>

datatype piece =
    Lit string
  | Str string
  | Flt float64
  | Dt datetime
  | Num nat
  | Names "string list"
  | Exc exn

type_synonym message = "piece list"

datatype DataMode = REAL_TIME | DELAYED_MODE | ADJUSTED

text \<open>\<^verbatim>\<open>DataMode(value)\<close>: lookup of an enum member by value, \<^verbatim>\<open>ValueError\<close> otherwise.\<close>

definition DataMode_of :: "string \<Rightarrow> exn + DataMode" where
  "DataMode_of s =
     (if s = ''R'' then Inr REAL_TIME
      else if s = ''D'' then Inr DELAYED_MODE
      else if s = ''A'' then Inr ADJUSTED
      else Inl (ValueError s))"

text \<open>
  The fields of the two configuration classes that the modelled code reads. Date strings
  are held as the timestamps they denote, \<^verbatim>\<open>max_date\<close> after \<^verbatim>\<open>__post_init__\<close> has
  filled it in, sets as lists, and the two optional dictionaries as association lists.
\<close>

record ValidationConfig =
  temp_min :: float64
  temp_max :: float64
  salinity_min :: float64
  salinity_max :: float64
  latitude_min :: float64
  latitude_max :: float64
  longitude_min :: float64
  longitude_max :: float64
  min_date :: datetime
  max_date :: datetime
  required_variables :: "string list"

record IngestionConfig =
  batch_size :: int
  max_workers :: int
  max_retries :: int
  retry_delay :: real
  exponential_backoff :: bool
  max_errors_per_file :: int
  data_modes :: "DataMode list"
  geographic_bounds :: "(string \<times> float64) list option"
  date_range :: "(string \<times> datetime) list option"
  validation :: ValidationConfig

text \<open>
  \<^verbatim>\<open>FileProcessingResult\<close>. Of the \<^verbatim>\<open>metadata\<close> dictionary only the entry
  \<^verbatim>\<open>'profiles'\<close> is kept (\<open>None\<close>: no such key); \<^verbatim>\<open>records_updated\<close>, which nothing
  writes, and the wall-clock \<^verbatim>\<open>processing_time\<close> are left out.
\<close>

record FileProcessingResult =
  file_path :: string
  success :: bool
  records_processed :: nat
  records_inserted :: nat
  records_skipped :: nat
  errors :: "message list"
  warnings :: "message list"
  file_size :: nat
  metadata_profiles :: "ArgoProfile list option"

definition new_result :: "string \<Rightarrow> bool \<Rightarrow> FileProcessingResult" where
  "new_result fp ok =
     \<lparr> file_path = fp, success = ok, records_processed = 0, records_inserted = 0,
       records_skipped = 0, errors = [], warnings = [], file_size = 0,
       metadata_profiles = None \<rparr>"

text \<open>\<^verbatim>\<open>d.get(key, default)\<close> and \<^verbatim>\<open>d[key]\<close>.\<close>

definition dict_get :: "(string \<times> 'a) list \<Rightarrow> string \<Rightarrow> 'a \<Rightarrow> 'a" where
  "dict_get d k dflt = (case map_of d k of None \<Rightarrow> dflt | Some x \<Rightarrow> x)"

definition dict_item :: "(string \<times> 'a) list \<Rightarrow> string \<Rightarrow> exn + 'a" where
  "dict_item d k = (case map_of d k of None \<Rightarrow> Inl (KeyError k) | Some x \<Rightarrow> Inr x)"

section \<open>Profile validation and the per-file scan (parsers.py, ArgoNetCDFParser)\<close>

text \<open>The chained comparison \<^verbatim>\<open>lo <= x <= hi\<close>.\<close>

definition in_range :: "float64 \<Rightarrow> float64 \<Rightarrow> float64 \<Rightarrow> bool" where
  "in_range lo x hi = (fle lo x \<and> fle x hi)"

text \<open>The local list \<^verbatim>\<open>errors\<close> of \<^verbatim>\<open>_validate_profile\<close>, before any filter runs.\<close>

definition bound_errors :: "ValidationConfig \<Rightarrow> ArgoProfile \<Rightarrow> message list" where
  "bound_errors v profile =
     (if \<not> in_range (latitude_min v) (latitude profile) (latitude_max v)
      then [[Lit ''Latitude '', Flt (latitude profile), Lit '' out of bounds'']] else [])
   @ (if \<not> in_range (longitude_min v) (longitude profile) (longitude_max v)
      then [[Lit ''Longitude '', Flt (longitude profile), Lit '' out of bounds'']] else [])
   @ (if \<not> (min_date v \<le> date_time profile \<and> date_time profile \<le> max_date v)
      then [[Lit ''Date '', Dt (date_time profile), Lit '' out of range'']] else [])"

text \<open>The geographic filter: \<open>True\<close> when it makes \<^verbatim>\<open>_validate_profile\<close> return False.\<close>

definition geographic_filter_rejects :: "IngestionConfig \<Rightarrow> ArgoProfile \<Rightarrow> bool" where
  "geographic_filter_rejects config profile =
     (case geographic_bounds config of
        None \<Rightarrow> False
      | Some [] \<Rightarrow> False
      | Some (b # bs) \<Rightarrow>
          (let bounds = b # bs
           in if \<not> in_range (dict_get bounds ''lat_min'' (Fin (- 90))) (latitude profile)
                            (dict_get bounds ''lat_max'' (Fin 90))
              then True
              else \<not> in_range (dict_get bounds ''lon_min'' (Fin (- 180))) (longitude profile)
                              (dict_get bounds ''lon_max'' (Fin 180))))"

text \<open>The date-range filter; the two subscripts raise \<^verbatim>\<open>KeyError\<close> on a missing key.\<close>

definition date_filter_rejects :: "IngestionConfig \<Rightarrow> ArgoProfile \<Rightarrow> exn + bool" where
  "date_filter_rejects config profile =
     (case date_range config of
        None \<Rightarrow> Inr False
      | Some [] \<Rightarrow> Inr False
      | Some (b # bs) \<Rightarrow>
          (case dict_item (b # bs) ''start'' of
             Inl e \<Rightarrow> Inl e
           | Inr start_date \<Rightarrow>
               (case dict_item (b # bs) ''end'' of
                  Inl e \<Rightarrow> Inl e
                | Inr end_date \<Rightarrow>
                    Inr (\<not> (start_date \<le> date_time profile \<and> date_time profile \<le> end_date)))))"

text \<open>\<^verbatim>\<open>not np.any(np.logical_and(arr >= lo, arr <= hi))\<close> for an array that is present.\<close>

definition none_in_range :: "float64 list option \<Rightarrow> float64 \<Rightarrow> float64 \<Rightarrow> bool" where
  "none_in_range arr lo hi =
     (case arr of None \<Rightarrow> False
      | Some xs \<Rightarrow> \<not> list_ex (\<lambda>x. fle lo x \<and> fle x hi) xs)"

definition range_warnings :: "ValidationConfig \<Rightarrow> ArgoProfile \<Rightarrow> message list" where
  "range_warnings v profile =
     (if none_in_range (temperature profile) (temp_min v) (temp_max v)
      then [[Lit ''No valid temperature measurements'']] else [])
   @ (if none_in_range (salinity profile) (salinity_min v) (salinity_max v)
      then [[Lit ''No valid salinity measurements'']] else [])"

definition profile_message :: "ArgoProfile \<Rightarrow> message \<Rightarrow> message" where
  "profile_message profile msg = [Lit ''Profile '', Str (profile_id profile), Lit '': ''] @ msg"

text \<open>
  \<^verbatim>\<open>_validate_profile\<close>: the verdict and the result with the messages added, or the
  exception that escapes it.
\<close>

definition validate_profile ::
  "IngestionConfig \<Rightarrow> ArgoProfile \<Rightarrow> FileProcessingResult \<Rightarrow> exn + (bool \<times> FileProcessingResult)" where
  "validate_profile config profile result =
     (let errs = bound_errors (validation config) profile
      in if geographic_filter_rejects config profile then Inr (False, result)
         else
           (case date_filter_rejects config profile of
              Inl e \<Rightarrow> Inl e
            | Inr True \<Rightarrow> Inr (False, result)
            | Inr False \<Rightarrow>
                (case DataMode_of (data_mode profile) of
                   Inl e \<Rightarrow> Inl e
                 | Inr mode \<Rightarrow>
                     if mode \<notin> set (data_modes config) then Inr (False, result)
                     else
                       (let warns = range_warnings (validation config) profile
                        in if errs \<noteq> []
                           then Inr (False,
                                  result\<lparr>errors := errors result @ map (profile_message profile) errs\<rparr>)
                           else if warns \<noteq> []
                           then Inr (True,
                                  result\<lparr>warnings := warnings result @ map (profile_message profile) warns\<rparr>)
                           else Inr (True, result)))))"

text \<open>
  \<^verbatim>\<open>_parse_profiles\<close>, consumed by \<^verbatim>\<open>list(...)\<close>. The data set is the list of what
  \<^verbatim>\<open>_parse_single_profile\<close> returns at each index from \<open>prof_idx\<close> on: a decoded profile,
  or \<open>None\<close> (that function catches its own exceptions). The function gives the profiles
  yielded and the result as mutated. The budget test sits in the \<^verbatim>\<open>except\<close> clause only.
\<close>

fun parse_profiles ::
  "IngestionConfig \<Rightarrow> ArgoProfile option list \<Rightarrow> nat \<Rightarrow> FileProcessingResult
     \<Rightarrow> ArgoProfile list \<times> FileProcessingResult" where
  "parse_profiles config [] prof_idx result = ([], result)"
| "parse_profiles config (None # rest) prof_idx result =
     parse_profiles config rest (Suc prof_idx)
       (result\<lparr>records_skipped := records_skipped result + 1\<rparr>)"
| "parse_profiles config (Some profile # rest) prof_idx result =
     (case validate_profile config profile result of
        Inr (True, result1) \<Rightarrow>
          (case parse_profiles config rest (Suc prof_idx) result1 of
             (profiles, result2) \<Rightarrow> (profile # profiles, result2))
      | Inr (False, result1) \<Rightarrow>
          parse_profiles config rest (Suc prof_idx)
            (result1\<lparr>records_skipped := records_skipped result1 + 1\<rparr>)
      | Inl e \<Rightarrow>
          (let result1 = result\<lparr>errors := errors result
                                   @ [[Lit ''Error parsing profile '', Num prof_idx, Lit '': '', Exc e]],
                                 records_skipped := records_skipped result + 1\<rparr>
           in if max_errors_per_file config \<le> int (length (errors result1))
              then ([], result1)
              else parse_profiles config rest (Suc prof_idx) result1))"

text \<open>
  A NetCDF file as the parser sees it: whether it exists, its size, whether
  \<^verbatim>\<open>xr.open_dataset\<close> raises, its dimensions and variable names, and the outcome of
  \<^verbatim>\<open>_parse_single_profile\<close> at each index (an index past the list fails to decode).
\<close>

record NetCDFFile =
  nc_path :: string
  nc_exists :: bool
  nc_size :: nat
  nc_open_error :: "exn option"
  nc_dims :: "(string \<times> nat) list"
  nc_variables :: "string list"
  nc_profiles :: "ArgoProfile option list"

definition parse_single_profile :: "NetCDFFile \<Rightarrow> nat \<Rightarrow> ArgoProfile option" where
  "parse_single_profile ds prof_idx =
     (if prof_idx < length (nc_profiles ds) then nc_profiles ds ! prof_idx else None)"

definition validate_netcdf_file :: "NetCDFFile \<Rightarrow> bool \<times> message list" where
  "validate_netcdf_file f =
     (if \<not> nc_exists f then (False, [[Lit ''File does not exist: '', Str (nc_path f)]])
      else if nc_size f = 0 then (False, [[Lit ''File is empty: '', Str (nc_path f)]])
      else
        (let errs =
               (case nc_open_error f of
                  Some e \<Rightarrow> [[Lit ''Cannot open NetCDF file: '', Exc e]]
                | None \<Rightarrow>
                    (let missing_dims = filter (\<lambda>d. map_of (nc_dims f) d = None) [''N_PROF''];
                         missing_vars = filter (\<lambda>v. v \<notin> set (nc_variables f))
                                          [''LATITUDE'', ''LONGITUDE'', ''JULD'']
                     in (if missing_dims \<noteq> []
                         then [[Lit ''Missing required dimensions: '', Names missing_dims]] else [])
                      @ (if missing_vars \<noteq> []
                         then [[Lit ''Missing core variables: '', Names missing_vars]] else [])))
         in (errs = [], errs)))"

text \<open>\<^verbatim>\<open>parse_file\<close>; every exception inside it is caught and recorded.\<close>

definition parse_file :: "IngestionConfig \<Rightarrow> NetCDFFile \<Rightarrow> FileProcessingResult" where
  "parse_file config f =
     (let result = (new_result (nc_path f) False)
                     \<lparr>file_size := (if nc_exists f then nc_size f else 0)\<rparr>
      in case nc_open_error f of
           Some e \<Rightarrow>
             result\<lparr>errors := errors result
                       @ [[Lit ''Error parsing file '', Str (nc_path f), Lit '': '', Exc e]]\<rparr>
         | None \<Rightarrow>
             (let missing_vars = filter (\<lambda>v. v \<notin> set (nc_variables f))
                                   (required_variables (validation config))
              in if missing_vars \<noteq> []
                 then result\<lparr>errors := errors result
                                @ [[Lit ''Missing required variables: '', Names missing_vars]]\<rparr>
                 else
                   (let n_prof = dict_get (nc_dims f) ''N_PROF'' 0
                    in case parse_profiles config
                              (map (parse_single_profile f) [0..<n_prof]) 0 result of
                         (profiles, result1) \<Rightarrow>
                           result1\<lparr>records_processed := length profiles,
                                   metadata_profiles := Some profiles,
                                   success := True\<rparr>)))"

section \<open>The database as a session sees it\<close>

text \<open>
  The four tables, in insertion order, and a counter that stands for the fresh
  \<^verbatim>\<open>uuid4\<close> keys of the float table (the surrogate keys and server timestamps of the
  other tables are left out). A value of this type is the stored tables, or the tables as
  one open session sees them with its own writes applied.
\<close>

record DataIngestionLog =
  l_filename :: string
  l_file_path :: string
  l_status :: string
  l_profiles_processed :: nat
  l_started_at :: datetime
  l_completed_at :: "datetime option"
  l_error_message :: "message option"

record Database =
  db_floats :: "ArgoFloat list"
  db_profiles :: "DbArgoProfile list"
  db_measurements :: "ArgoMeasurement list"
  db_ingestion_log :: "DataIngestionLog list"
  db_next_uuid :: nat

text \<open>
  Errors that depend on the state of the database engine (a lost connection, a lock
  timeout, a value too long for its column) are an oracle: for each operation the
  exception it raises, if any. \<open>Upsert_measurements i\<close> is the statement of the batch
  that starts at index \<open>i\<close>, \<open>Flush_floats\<close> the flush of the float rows that the mapper
  changed. Errors that follow from the statement and the schema alone are part of the
  operations below.
\<close>

datatype db_op =
    Upsert_floats
  | Upsert_profiles
  | Upsert_measurements nat
  | Flush_floats
  | Flush_log
  | Commit_savepoint
  | Query_log

type_synonym faults = "db_op \<Rightarrow> exn option"

definition no_faults :: faults where
  "no_faults = (\<lambda>operation. None)"

section \<open>Float reconciliation and batch mapping (mappers.py)\<close>

text \<open>\<^verbatim>\<open>name[:200] if name else None\<close>.\<close>

definition truncated_name :: "string option \<Rightarrow> string option" where
  "truncated_name name =
     (case name of None \<Rightarrow> None | Some s \<Rightarrow> if s = [] then None else Some (take 200 s))"

definition new_float :: "ArgoProfile \<Rightarrow> ArgoFloat" where
  "new_float profile =
     \<lparr> f_id = None, f_float_id = float_id profile,
       f_platform_number = platform_number profile, f_wmo_number = None,
       f_project_name = truncated_name (project_name profile),
       f_pi_name = truncated_name (pi_name profile),
       f_institution = None, f_wmo_inst_type = None,
       f_status = Some ''active'',
       f_deployment_date = Some (date_time profile),
       f_last_contact_date = Some (date_time profile),
       f_last_latitude = None, f_last_longitude = None,
       f_total_profiles = Some 1,
       f_first_profile_date = Some (date_time profile),
       f_last_profile_date = Some (date_time profile),
       f_created_at = None, f_updated_at = None \<rparr>"

text \<open>The \<^verbatim>\<open>else\<close> branch of \<^verbatim>\<open>_get_or_create_float\<close>: the float was found in the table.\<close>

definition update_float :: "ArgoFloat \<Rightarrow> ArgoProfile \<Rightarrow> ArgoFloat" where
  "update_float float_model profile =
     (let fm1 = (if (case f_last_contact_date float_model of
                       None \<Rightarrow> True | Some d \<Rightarrow> d < date_time profile)
                 then float_model\<lparr> f_last_contact_date := Some (date_time profile),
                                   f_last_latitude := Some (latitude profile),
                                   f_last_longitude := Some (longitude profile) \<rparr>
                 else float_model);
          fm2 = fm1\<lparr> f_total_profiles :=
                       Some ((case f_total_profiles fm1 of None \<Rightarrow> 0 | Some n \<Rightarrow> n) + 1) \<rparr>;
          fm3 = (if (case f_first_profile_date fm2 of
                       None \<Rightarrow> True | Some d \<Rightarrow> date_time profile < d)
                 then fm2\<lparr> f_first_profile_date := Some (date_time profile) \<rparr> else fm2)
      in if (case f_last_profile_date fm3 of None \<Rightarrow> True | Some d \<Rightarrow> d < date_time profile)
         then fm3\<lparr> f_last_profile_date := Some (date_time profile) \<rparr> else fm3)"

text \<open>
  \<^verbatim>\<open>_get_or_create_float\<close>. The cache is the mapper's dictionary; a hit returns the
  cached model at once, before any of the updates.
\<close>

definition get_or_create_float ::
  "(string \<rightharpoonup> ArgoFloat) \<Rightarrow> ArgoProfile \<Rightarrow> Database \<Rightarrow> ArgoFloat \<times> (string \<rightharpoonup> ArgoFloat)" where
  "get_or_create_float float_cache profile session =
     (case float_cache (float_id profile) of
        Some cached \<Rightarrow> (cached, float_cache)
      | None \<Rightarrow>
          (let float_model =
                 (case find (\<lambda>row. f_float_id row = float_id profile) (db_floats session) of
                    None \<Rightarrow> new_float profile
                  | Some row \<Rightarrow> update_float row profile)
           in (float_model, float_cache(float_id profile \<mapsto> float_model))))"

text \<open>
  \<^verbatim>\<open>np.nanmax\<close> and \<^verbatim>\<open>np.nanmin\<close> of an array with at least one entry that is not NaN.
  In \<^verbatim>\<open>_create_profile_model\<close> the level count starts as the Python integer 0 and, when
  the profile has a pressure array, becomes \<^verbatim>\<open>np.sum(valid_pressure)\<close>, a NumPy integer.
\<close>

definition nanmax :: "float64 list \<Rightarrow> float64" where
  "nanmax xs = (case filter (\<lambda>x. \<not> isnan x) xs of
                  [] \<Rightarrow> NaN
                | y # ys \<Rightarrow> fold (\<lambda>x best. if fle best x then x else best) ys y)"

definition nanmin :: "float64 list \<Rightarrow> float64" where
  "nanmin xs = (case filter (\<lambda>x. \<not> isnan x) xs of
                  [] \<Rightarrow> NaN
                | y # ys \<Rightarrow> fold (\<lambda>x best. if fle x best then x else best) ys y)"

definition create_profile_model :: "ArgoProfile \<Rightarrow> ArgoFloat \<Rightarrow> DbArgoProfile" where
  "create_profile_model profile float_model =
     (let n_levels = (case pressure profile of
                        None \<Rightarrow> 0 | Some pres \<Rightarrow> length (filter (\<lambda>x. \<not> isnan x) pres))
      in \<lparr> dp_profile_id = profile_id profile, dp_float_id = float_id profile,
           dp_cycle_number = cycle_number profile, dp_data_mode = data_mode profile,
           dp_latitude = latitude profile, dp_longitude = longitude profile,
           dp_measurement_date = date_time profile,
           dp_data_points = (case pressure profile of
                               None \<Rightarrow> Py_int 0 | Some pres \<Rightarrow> Np_int64 n_levels),
           dp_max_pressure = (case pressure profile of
                                None \<Rightarrow> None
                              | Some pres \<Rightarrow> if 0 < n_levels then Some (nanmax pres) else None),
           dp_min_pressure = (case pressure profile of
                                None \<Rightarrow> None
                              | Some pres \<Rightarrow> if 0 < n_levels then Some (nanmin pres) else None),
           dp_quality_flag = (if position_qc profile = Some ''1'' then ''A'' else ''B'') \<rparr>)"

definition map_profile_to_models ::
  "(string \<rightharpoonup> ArgoFloat) \<Rightarrow> ArgoProfile \<Rightarrow> Database
     \<Rightarrow> (ArgoFloat \<times> DbArgoProfile \<times> ArgoMeasurement list) \<times> (string \<rightharpoonup> ArgoFloat)" where
  "map_profile_to_models float_cache profile session =
     (case get_or_create_float float_cache profile session of
        (float_model, float_cache1) \<Rightarrow>
          (let profile_model = create_profile_model profile float_model
           in ((float_model, profile_model, create_measurement_models profile profile_model),
               float_cache1)))"

text \<open>
  The loop of \<^verbatim>\<open>batch_map_profiles\<close> over one mapper: the three lists grow in step.
  Nothing in the modelled mapping raises, so its \<^verbatim>\<open>except\<close> clause has no branch here.
\<close>

fun map_profiles ::
  "(string \<rightharpoonup> ArgoFloat) \<Rightarrow> ArgoProfile list \<Rightarrow> Database
     \<Rightarrow> ArgoFloat list \<times> DbArgoProfile list \<times> ArgoMeasurement list
     \<Rightarrow> ArgoFloat list \<times> DbArgoProfile list \<times> ArgoMeasurement list" where
  "map_profiles float_cache [] session acc = acc"
| "map_profiles float_cache (profile # rest) session (floats, profile_models, all_measurements) =
     (case map_profile_to_models float_cache profile session of
        ((float_model, profile_model, measurements), float_cache1) \<Rightarrow>
          map_profiles float_cache1 rest session
            (floats @ [float_model], profile_models @ [profile_model],
             all_measurements @ measurements))"

text \<open>\<^verbatim>\<open>d[key] = value\<close> on a dictionary held in insertion order.\<close>

fun dict_put :: "(string \<times> 'a) list \<Rightarrow> string \<Rightarrow> 'a \<Rightarrow> (string \<times> 'a) list" where
  "dict_put [] k v = [(k, v)]"
| "dict_put ((k', v') # d) k v = (if k' = k then (k, v) # d else (k', v') # dict_put d k v)"

definition batch_map_profiles ::
  "ArgoProfile list \<Rightarrow> IngestionConfig \<Rightarrow> Database
     \<Rightarrow> ArgoFloat list \<times> DbArgoProfile list \<times> ArgoMeasurement list" where
  "batch_map_profiles profiles config session =
     (case map_profiles Map.empty profiles session ([], [], []) of
        (floats, profile_models, all_measurements) \<Rightarrow>
          (let unique_floats = fold (\<lambda>float_model d. dict_put d (f_float_id float_model) float_model)
                                 floats []
           in (map snd unique_floats, profile_models, all_measurements)))"

section \<open>Bulk writes (database_ops.py, DatabaseOperations)\<close>

text \<open>
  An \<^verbatim>\<open>INSERT ... ON CONFLICT DO UPDATE\<close> on a unique column proposes one row per
  dictionary of values, in order. A proposed row holds the listed values and NULL in every
  other column; it is the row \<^verbatim>\<open>excluded\<close> of the conflict clause. Where a stored row
  has the same conflict key, the columns named in \<^verbatim>\<open>set_\<close> take the values of the
  proposed row and nothing else changes; otherwise the proposed row is stored, with its
  generated key and timestamps. The statement's row count is the number of proposed rows.
  The float statement gets one model per identifier: \<^verbatim>\<open>batch_map_profiles\<close> removes the
  duplicates.
\<close>

definition float_values :: "ArgoFloat \<Rightarrow> ArgoFloat" where
  "float_values float_model =
     \<lparr> f_id = None, f_float_id = f_float_id float_model,
       f_platform_number = f_platform_number float_model, f_wmo_number = None,
       f_project_name = f_project_name float_model, f_pi_name = f_pi_name float_model,
       f_institution = None, f_wmo_inst_type = None,
       f_status = f_status float_model,
       f_deployment_date = f_deployment_date float_model,
       f_last_contact_date = f_last_contact_date float_model,
       f_last_latitude = None, f_last_longitude = None,
       f_total_profiles = f_total_profiles float_model,
       f_first_profile_date = None, f_last_profile_date = None,
       f_created_at = None, f_updated_at = None \<rparr>"

definition float_on_conflict :: "ArgoFloat \<Rightarrow> ArgoFloat \<Rightarrow> ArgoFloat" where
  "float_on_conflict excluded row =
     row\<lparr> f_last_contact_date := f_last_contact_date excluded,
          f_total_profiles := f_total_profiles excluded,
          f_status := f_status excluded,
          f_last_profile_date := f_last_profile_date excluded \<rparr>"

definition upsert_float_row :: "datetime \<Rightarrow> ArgoFloat \<Rightarrow> Database \<Rightarrow> Database" where
  "upsert_float_row now float_model session =
     (let excluded = float_values float_model
      in if list_ex (\<lambda>row. f_float_id row = f_float_id excluded) (db_floats session)
         then session\<lparr> db_floats :=
                          map (\<lambda>row. if f_float_id row = f_float_id excluded
                                      then float_on_conflict excluded row else row)
                              (db_floats session) \<rparr>
         else session\<lparr> db_floats := db_floats session
                          @ [excluded\<lparr> f_id := Some (db_next_uuid session),
                                       f_created_at := Some now, f_updated_at := Some now \<rparr>],
                        db_next_uuid := Suc (db_next_uuid session) \<rparr>)"

definition upsert_floats ::
  "faults \<Rightarrow> datetime \<Rightarrow> ArgoFloat list \<Rightarrow> Database \<Rightarrow> exn + (nat \<times> Database)" where
  "upsert_floats faults now floats session =
     (if floats = [] then Inr (0, session)
      else case faults Upsert_floats of
             Some e \<Rightarrow> Inl e
           | None \<Rightarrow> Inr (length floats, fold (upsert_float_row now) floats session))"

definition profile_on_conflict :: "DbArgoProfile \<Rightarrow> DbArgoProfile \<Rightarrow> DbArgoProfile" where
  "profile_on_conflict excluded row =
     row\<lparr> dp_data_mode := dp_data_mode excluded,
          dp_data_points := dp_data_points excluded,
          dp_max_pressure := dp_max_pressure excluded,
          dp_min_pressure := dp_min_pressure excluded,
          dp_quality_flag := dp_quality_flag excluded \<rparr>"

definition upsert_profile_row :: "DbArgoProfile \<Rightarrow> Database \<Rightarrow> Database" where
  "upsert_profile_row excluded session =
     (if list_ex (\<lambda>row. dp_profile_id row = dp_profile_id excluded) (db_profiles session)
      then session\<lparr> db_profiles :=
                       map (\<lambda>row. if dp_profile_id row = dp_profile_id excluded
                                   then profile_on_conflict excluded row else row)
                           (db_profiles session) \<rparr>
      else session\<lparr> db_profiles := db_profiles session @ [excluded] \<rparr>)"

text \<open>
  \<^verbatim>\<open>_upsert_profiles\<close>. The values go to the driver as the model holds them, and psycopg2
  (the driver behind \<^verbatim>\<open>postgresql://\<close>) has no adapter for a NumPy integer: the statement
  fails before it is sent. PostgreSQL refuses a statement that proposes two rows with one
  conflict key.
\<close>

definition is_numpy_integer :: "py_int \<Rightarrow> bool" where
  "is_numpy_integer n = (case n of Py_int k \<Rightarrow> False | Np_int64 k \<Rightarrow> True)"

definition upsert_profiles ::
  "faults \<Rightarrow> DbArgoProfile list \<Rightarrow> Database \<Rightarrow> exn + (nat \<times> Database)" where
  "upsert_profiles faults profiles session =
     (if profiles = [] then Inr (0, session)
      else if list_ex (\<lambda>profile_model. is_numpy_integer (dp_data_points profile_model)) profiles
      then Inl (SQLAlchemyError ''ProgrammingError: cannot adapt type numpy.int64'')
      else case faults Upsert_profiles of
             Some e \<Rightarrow> Inl e
           | None \<Rightarrow>
               if \<not> distinct (map dp_profile_id profiles)
               then Inl (SQLAlchemyError
                      ''CardinalityViolation: ON CONFLICT DO UPDATE command cannot affect row a second time'')
               else Inr (length profiles, fold upsert_profile_row profiles session))"

text \<open>The fourteen values of a measurement; the two attributes without a column are dropped.\<close>

definition measurement_values :: "ArgoMeasurement \<Rightarrow> ArgoMeasurement" where
  "measurement_values measurement =
     measurement\<lparr> m_temperature_adjusted_qc := None, m_salinity_adjusted_qc := None \<rparr>"

text \<open>
  The statement of one batch:
  \<^verbatim>\<open>INSERT INTO argo_measurements ... ON CONFLICT (profile_id, pressure) DO UPDATE\<close>.
  PostgreSQL accepts a conflict target only if a unique index or constraint covers exactly
  those columns. The schema has none for \<^verbatim>\<open>(profile_id, pressure)\<close>, so the statement is
  refused whatever the batch and the table hold, unless the engine fails before that.
\<close>

definition measurement_upsert_statement ::
  "faults \<Rightarrow> nat \<Rightarrow> ArgoMeasurement list \<Rightarrow> Database \<Rightarrow> exn + (nat \<times> Database)" where
  "measurement_upsert_statement faults i measurement_data session =
     (case faults (Upsert_measurements i) of
        Some e \<Rightarrow> Inl e
      | None \<Rightarrow>
          Inl (SQLAlchemyError
            ''ProgrammingError: there is no unique or exclusion constraint matching the ON CONFLICT specification''))"

text \<open>
  The loop \<^verbatim>\<open>for i in range(0, len(measurements), batch_size)\<close> for a positive step:
  \<open>rest\<close> is \<^verbatim>\<open>measurements[i:]\<close>, the batch its first \<open>step\<close> elements.
\<close>

function insert_measurement_batches ::
  "faults \<Rightarrow> nat \<Rightarrow> nat \<Rightarrow> ArgoMeasurement list \<Rightarrow> nat \<Rightarrow> Database \<Rightarrow> exn + (nat \<times> Database)" where
  "insert_measurement_batches faults step i rest total_inserted session =
     (if step = 0 \<or> rest = [] then Inr (total_inserted, session)
      else case measurement_upsert_statement faults i
                  (map measurement_values (take step rest)) session of
             Inl e \<Rightarrow> Inl e
           | Inr (batch_inserted, session1) \<Rightarrow>
               insert_measurement_batches faults step (i + step) (drop step rest)
                 (total_inserted + batch_inserted) session1)"
  by pat_completeness auto
termination
  by (relation "measure (\<lambda>(faults, step, i, rest, total_inserted, session). length rest)") auto

declare insert_measurement_batches.simps [simp del]

text \<open>
  \<^verbatim>\<open>_bulk_insert_measurements\<close>. \<^verbatim>\<open>range\<close> raises on a zero step and is empty on a
  negative one.
\<close>

definition bulk_insert_measurements ::
  "faults \<Rightarrow> IngestionConfig \<Rightarrow> ArgoMeasurement list \<Rightarrow> Database \<Rightarrow> exn + (nat \<times> Database)" where
  "bulk_insert_measurements faults config measurements session =
     (if measurements = [] then Inr (0, session)
      else if batch_size config = 0 then Inl (ValueError ''range() arg 3 must not be zero'')
      else if batch_size config < 0 then Inr (0, session)
      else insert_measurement_batches faults (nat (batch_size config)) 0 measurements 0 session)"

definition bulk_insert_models ::
  "faults \<Rightarrow> datetime \<Rightarrow> IngestionConfig
     \<Rightarrow> ArgoFloat list \<times> DbArgoProfile list \<times> ArgoMeasurement list
     \<Rightarrow> Database \<Rightarrow> exn + ((nat \<times> nat \<times> nat) \<times> Database)" where
  "bulk_insert_models faults now config models_dict session =
     (case models_dict of
        (floats, profiles, measurements) \<Rightarrow>
          (case (if floats \<noteq> [] then upsert_floats faults now floats session
                 else Inr (0, session)) of
             Inl e \<Rightarrow> Inl e
           | Inr (floats_inserted, session1) \<Rightarrow>
               (case (if profiles \<noteq> [] then upsert_profiles faults profiles session1
                      else Inr (0, session1)) of
                  Inl e \<Rightarrow> Inl e
                | Inr (profiles_inserted, session2) \<Rightarrow>
                    (case (if measurements \<noteq> []
                           then bulk_insert_measurements faults config measurements session2
                           else Inr (0, session2)) of
                       Inl e \<Rightarrow> Inl e
                     | Inr (measurements_inserted, session3) \<Rightarrow>
                         Inr ((floats_inserted, profiles_inserted, measurements_inserted),
                              session3)))))"

section \<open>The audit log (mappers.py, database_ops.py)\<close>

text \<open>
  The dictionary that \<^verbatim>\<open>create_ingestion_log_entry\<close> returns, without the two values it
  passes through untouched (\<^verbatim>\<open>processing_time\<close>, \<^verbatim>\<open>metadata\<close>). \<open>now\<close> is the reading of
  \<^verbatim>\<open>datetime.utcnow()\<close>.
\<close>

record IngestionLogEntry =
  e_file_path :: string
  e_status :: string
  e_records_processed :: nat
  e_records_inserted :: nat
  e_error_count :: nat
  e_error_messages :: "message list"
  e_ingested_at :: datetime

definition create_ingestion_log_entry ::
  "string \<Rightarrow> bool \<Rightarrow> nat \<Rightarrow> nat \<Rightarrow> message list \<Rightarrow> datetime \<Rightarrow> IngestionLogEntry" where
  "create_ingestion_log_entry fp ok processed inserted errs now =
     \<lparr> e_file_path = fp, e_status = (if ok then ''success'' else ''failed''),
       e_records_processed = processed, e_records_inserted = inserted,
       e_error_count = length errs, e_error_messages = take 10 errs,
       e_ingested_at = now \<rparr>"

text \<open>\<^verbatim>\<open>Path(p).name\<close>, the text after the last separator, and \<^verbatim>\<open>'\n'.join(messages)\<close>.\<close>

definition path_name :: "string \<Rightarrow> string" where
  "path_name p = rev (takeWhile (\<lambda>c. c \<noteq> CHR ''/'') (rev p))"

fun join_lines :: "message list \<Rightarrow> message" where
  "join_lines [] = []"
| "join_lines [m] = m"
| "join_lines (m # ms) = m @ [Lit [CHR 0x0A]] @ join_lines ms"

text \<open>\<^verbatim>\<open>try: body except Exception as e: handler\<close>.\<close>

definition try_except :: "exn + 'a \<Rightarrow> (exn \<Rightarrow> exn + 'a) \<Rightarrow> exn + 'a" where
  "try_except body handler = (case body of Inl e \<Rightarrow> handler e | Inr x \<Rightarrow> Inr x)"

text \<open>The \<^verbatim>\<open>DataIngestionLog\<close> row that \<^verbatim>\<open>log_ingestion_result\<close> builds for a result.\<close>

definition ingestion_log_model :: "datetime \<Rightarrow> FileProcessingResult \<Rightarrow> DataIngestionLog" where
  "ingestion_log_model now result =
     (let log_entry = create_ingestion_log_entry (file_path result) (success result)
                        (records_processed result) (records_inserted result) (errors result) now
      in \<lparr> l_filename = path_name (e_file_path log_entry),
           l_file_path = e_file_path log_entry,
           l_status = e_status log_entry,
           l_profiles_processed = e_records_processed log_entry,
           l_started_at = e_ingested_at log_entry,
           l_completed_at = (if e_status log_entry = ''success''
                             then Some (e_ingested_at log_entry) else None),
           l_error_message = (if e_error_messages log_entry \<noteq> []
                              then Some (join_lines (e_error_messages log_entry)) else None) \<rparr>)"

text \<open>The \<^verbatim>\<open>try\<close> block of \<^verbatim>\<open>log_ingestion_result\<close>: build the row, add it, flush.\<close>

definition log_ingestion_result_body ::
  "faults \<Rightarrow> datetime \<Rightarrow> FileProcessingResult \<Rightarrow> Database \<Rightarrow> exn + Database" where
  "log_ingestion_result_body faults now result session =
     (let log_model = ingestion_log_model now result
      in case faults Flush_log of
           Some e \<Rightarrow> Inl e
         | None \<Rightarrow> Inr (session\<lparr>db_ingestion_log := db_ingestion_log session @ [log_model]\<rparr>))"

text \<open>
  A session inside a savepoint: its tables, or \<open>Deactivated\<close> once a flush has failed.
  SQLAlchemy answers a failed flush by rolling the innermost transaction back, here the
  savepoint, and leaves it deactivated: its writes are gone and it can no longer be
  committed.
\<close>

datatype session_state = Active Database | Deactivated

text \<open>
  \<^verbatim>\<open>log_ingestion_result\<close>: the handler logs the exception and does not re-raise. The
  flush is the statement of the block that can fail, and it leaves the session
  deactivated.
\<close>

definition log_ingestion_result ::
  "faults \<Rightarrow> datetime \<Rightarrow> FileProcessingResult \<Rightarrow> Database \<Rightarrow> exn + session_state" where
  "log_ingestion_result faults now result session =
     try_except
       (case log_ingestion_result_body faults now result session of
          Inl e \<Rightarrow> Inl e
        | Inr session1 \<Rightarrow> Inr (Active session1))
       (\<lambda>e. Inr Deactivated)"

text \<open>
  \<^verbatim>\<open>get_ingestion_status\<close>: the row of the file with the greatest \<^verbatim>\<open>started_at\<close> (the
  earliest stored among equals), \<open>None\<close> when there is none or the query raises.
\<close>

definition latest_started :: "DataIngestionLog list \<Rightarrow> DataIngestionLog option" where
  "latest_started rows =
     (case rows of
        [] \<Rightarrow> None
      | r # rs \<Rightarrow> Some (fold (\<lambda>row best. if l_started_at best < l_started_at row then row else best)
                          rs r))"

definition get_ingestion_status :: "faults \<Rightarrow> string \<Rightarrow> Database \<Rightarrow> DataIngestionLog option" where
  "get_ingestion_status faults fp session =
     (case faults Query_log of
        Some e \<Rightarrow> None
      | None \<Rightarrow> latest_started (filter (\<lambda>row. l_file_path row = fp) (db_ingestion_log session)))"

section \<open>Transactions and retries (database_ops.py, TransactionManager)\<close>

text \<open>
  \<^verbatim>\<open>session.begin_nested()\<close> flushes the session before it sets the savepoint. The
  objects to flush are the float models that the mapper loaded from the table and
  changed (they have a key; a model that the mapper created is never added to the
  session): each is written back to its row, with \<^verbatim>\<open>updated_at\<close> refreshed.
\<close>

definition is_persistent :: "ArgoFloat \<Rightarrow> bool" where
  "is_persistent float_model = (f_id float_model \<noteq> None)"

definition flush_dirty_floats ::
  "faults \<Rightarrow> datetime \<Rightarrow> ArgoFloat list \<Rightarrow> Database \<Rightarrow> exn + Database" where
  "flush_dirty_floats faults now floats session =
     (let dirty = filter is_persistent floats
      in if dirty = [] then Inr session
         else case faults Flush_floats of
                Some e \<Rightarrow> Inl e
              | None \<Rightarrow>
                  Inr (session\<lparr> db_floats :=
                         map (\<lambda>row. case find (\<lambda>float_model. f_id float_model = f_id row) dirty of
                                      None \<Rightarrow> row
                                    | Some float_model \<Rightarrow> float_model\<lparr>f_updated_at := Some now\<rparr>)
                             (db_floats session) \<rparr>))"

text \<open>
  \<^verbatim>\<open>transaction\<close>. \<open>floats\<close> are the float models of the batch and \<open>x\<close> the caller's
  objects as they are when the block is entered. The body runs under the savepoint and
  returns what it made of those objects, with the state of the session or the exception
  that left the body. \<^verbatim>\<open>savepoint.commit()\<close> raises on a deactivated savepoint. Any
  exception, of \<^verbatim>\<open>begin_nested\<close>, of the body or of the commit, travels on to the caller.
\<close>

definition transaction ::
  "faults \<Rightarrow> datetime \<Rightarrow> ArgoFloat list \<Rightarrow> Database \<Rightarrow> 'a
     \<Rightarrow> (Database \<Rightarrow> 'a \<times> (exn + session_state)) \<Rightarrow> 'a \<times> (exn + Database)" where
  "transaction faults now floats session x body =
     (case flush_dirty_floats faults now floats session of
        Inl e \<Rightarrow> (x, Inl e)
      | Inr session0 \<Rightarrow>
          (case body session0 of
             (x1, Inl e) \<Rightarrow> (x1, Inl e)
           | (x1, Inr Deactivated) \<Rightarrow>
               (x1, Inl (SQLAlchemyError
                          ''PendingRollbackError: the savepoint has been rolled back by a failed flush''))
           | (x1, Inr (Active session1)) \<Rightarrow>
               (case faults Commit_savepoint of
                  Some e \<Rightarrow> (x1, Inl e)
                | None \<Rightarrow> (x1, Inr session1))))"

text \<open>
  \<^verbatim>\<open>execute_with_retry\<close>. The operation is given by the outcome of the call made at each
  attempt. The function returns a value, returns \<open>None\<close> by falling off the loop, or raises;
  the trace records the calls and the sleeps in order. \<^verbatim>\<open>time.sleep\<close> raises on a negative
  delay.
\<close>

datatype 'a outcome = Returns 'a | Raises exn

datatype retry_event = Call nat | Sleep real

definition backoff_delay :: "IngestionConfig \<Rightarrow> nat \<Rightarrow> real" where
  "backoff_delay config attempt =
     (if exponential_backoff config then retry_delay config * 2 ^ attempt
      else retry_delay config)"

fun retry_attempts ::
  "IngestionConfig \<Rightarrow> (nat \<Rightarrow> 'a outcome) \<Rightarrow> int \<Rightarrow> nat list \<Rightarrow> retry_event list
     \<Rightarrow> (exn + 'a option) \<times> retry_event list" where
  "retry_attempts config operation_func retries [] trace = (Inr None, trace)"
| "retry_attempts config operation_func retries (attempt # rest) trace =
     (case operation_func attempt of
        Returns v \<Rightarrow> (Inr (Some v), trace @ [Call attempt])
      | Raises e \<Rightarrow>
          if \<not> is_sqlalchemy_error e then (Inl e, trace @ [Call attempt])
          else if int attempt = retries then (Inl e, trace @ [Call attempt])
          else if backoff_delay config attempt < 0
          then (Inl (ValueError ''sleep length must be non-negative''), trace @ [Call attempt])
          else retry_attempts config operation_func retries rest
                 (trace @ [Call attempt, Sleep (backoff_delay config attempt)]))"

definition execute_with_retry ::
  "IngestionConfig \<Rightarrow> (nat \<Rightarrow> 'a outcome) \<Rightarrow> int option
     \<Rightarrow> (exn + 'a option) \<times> retry_event list" where
  "execute_with_retry config operation_func max_retries_arg =
     (let retries = (case max_retries_arg of
                       None \<Rightarrow> max_retries config
                     | Some m \<Rightarrow> if m = 0 then max_retries config else m)
      in retry_attempts config operation_func retries [0..<nat (retries + 1)] [])"

section \<open>The ingestion service (service.py, ArgoIngestionService)\<close>

text \<open>\<^verbatim>\<open>result.metadata.get('profiles', [])\<close>.\<close>

definition accepted_profiles :: "FileProcessingResult \<Rightarrow> ArgoProfile list" where
  "accepted_profiles result =
     (case metadata_profiles result of None \<Rightarrow> [] | Some profiles \<Rightarrow> profiles)"

definition database_error :: "NetCDFFile \<Rightarrow> exn \<Rightarrow> FileProcessingResult \<Rightarrow> FileProcessingResult" where
  "database_error f e result =
     result\<lparr> errors := errors result
                @ [[Lit ''Database error for '', Str (nc_path f), Lit '': '', Exc e]],
             success := False \<rparr>"

text \<open>
  The \<^verbatim>\<open>with self.db_ops.get_session() as session:\<close> block of \<^verbatim>\<open>ingest_file\<close>: the
  profiles are mapped, then written and logged under one savepoint. It gives the result
  object, which keeps the counts written to it before an exception, and the tables as the
  session sees them at the end of the block, or the exception that left the block.
\<close>

definition persist_profiles ::
  "faults \<Rightarrow> datetime \<Rightarrow> IngestionConfig \<Rightarrow> ArgoProfile list \<Rightarrow> FileProcessingResult \<Rightarrow> Database
     \<Rightarrow> FileProcessingResult \<times> (exn + Database)" where
  "persist_profiles faults now config profiles result session =
     (let models_dict = batch_map_profiles profiles config session
      in transaction faults now (fst models_dict) session result
           (\<lambda>session0.
              case bulk_insert_models faults now config models_dict session0 of
                Inl e \<Rightarrow> (result, Inl e)
              | Inr ((floats_inserted, profiles_inserted, measurements_inserted), session1) \<Rightarrow>
                  (let result1 = result\<lparr> records_inserted := profiles_inserted,
                                         records_processed := length profiles \<rparr>
                   in (result1, log_ingestion_result faults now result1 session1))))"

text \<open>
  \<^verbatim>\<open>ingest_file\<close>: the result returned and the stored tables afterwards.
  \<^verbatim>\<open>get_db_session\<close> (db/init_db.py) yields a session, rolls it back on an exception and
  closes it on the way out; neither it nor \<^verbatim>\<open>ingest_file\<close> commits. Closing a session
  rolls its open transaction back, so what the session wrote is not stored: after the
  call the tables are what they were before it.
\<close>

definition ingest_file ::
  "faults \<Rightarrow> datetime \<Rightarrow> IngestionConfig \<Rightarrow> NetCDFFile \<Rightarrow> bool \<Rightarrow> Database
     \<Rightarrow> FileProcessingResult \<times> Database" where
  "ingest_file faults now config f dry_run database =
     (case validate_netcdf_file f of
        (False, validation_errors) \<Rightarrow>
          ((new_result (nc_path f) False)\<lparr>errors := validation_errors\<rparr>, database)
      | (True, validation_errors) \<Rightarrow>
          (let result = parse_file config f
           in if \<not> success result then (result, database)
              else
                (let profiles = accepted_profiles result
                 in if profiles = []
                    then (result\<lparr> errors := errors result
                                     @ [[Lit ''No valid profiles found in file'']],
                                   success := False \<rparr>, database)
                    else if dry_run
                    then (result\<lparr>records_processed := length profiles\<rparr>, database)
                    else
                      (case persist_profiles faults now config profiles result database of
                         (result1, Inr session_end) \<Rightarrow> (result1, database)
                       | (result1, Inl e) \<Rightarrow> (database_error f e result1, database)))))"

text \<open>The counters of \<^verbatim>\<open>self.stats\<close>, and the service's mutable state.\<close>

record Stats =
  files_discovered :: nat
  files_processed :: nat
  files_successful :: nat
  files_failed :: nat
  files_skipped :: nat
  total_records_processed :: nat
  total_records_inserted :: nat

record Service =
  stats :: Stats
  database :: Database

text \<open>\<^verbatim>\<open>IngestionSummary\<close> without its clock readings and throughput figures.\<close>

record IngestionSummary =
  s_files_processed :: nat
  s_files_successful :: nat
  s_files_failed :: nat
  s_total_records_processed :: nat
  s_total_records_inserted :: nat

definition create_summary :: "Service \<Rightarrow> IngestionSummary" where
  "create_summary service =
     \<lparr> s_files_processed = files_processed (stats service),
       s_files_successful = files_successful (stats service),
       s_files_failed = files_failed (stats service),
       s_total_records_processed = total_records_processed (stats service),
       s_total_records_inserted = total_records_inserted (stats service) \<rparr>"

text \<open>
  \<^verbatim>\<open>_process_files_sequential\<close>; \<open>clock i\<close> is the clock when the file at index \<open>i\<close> is
  ingested. \<^verbatim>\<open>ingest_file\<close> catches what it raises, so the loop's handler has no branch.
\<close>

fun process_files_sequential ::
  "faults \<Rightarrow> (nat \<Rightarrow> datetime) \<Rightarrow> IngestionConfig \<Rightarrow> NetCDFFile list \<Rightarrow> nat \<Rightarrow> bool \<Rightarrow> Service
     \<Rightarrow> FileProcessingResult list \<times> Service" where
  "process_files_sequential faults clock config [] i dry_run service = ([], service)"
| "process_files_sequential faults clock config (f # rest) i dry_run service =
     (case ingest_file faults (clock i) config f dry_run (database service) of
        (result, database1) \<Rightarrow>
          (let st1 = (stats service)\<lparr>files_processed := files_processed (stats service) + 1\<rparr>;
               st2 = (if success result
                      then st1\<lparr>files_successful := files_successful st1 + 1\<rparr>
                      else st1\<lparr>files_failed := files_failed st1 + 1\<rparr>)
           in case process_files_sequential faults clock config rest (Suc i) dry_run
                     \<lparr> stats = st2, database = database1 \<rparr> of
                (results, service1) \<Rightarrow> (result # results, service1)))"

text \<open>
  \<^verbatim>\<open>_process_files_parallel\<close> submits the same \<^verbatim>\<open>ingest_file\<close> call for every file of
  the list and counts the results as they complete. It is modelled for the schedule in
  which the calls complete one after the other in submission order.
\<close>

definition process_files_parallel ::
  "faults \<Rightarrow> (nat \<Rightarrow> datetime) \<Rightarrow> IngestionConfig \<Rightarrow> NetCDFFile list \<Rightarrow> bool \<Rightarrow> Service
     \<Rightarrow> FileProcessingResult list \<times> Service" where
  "process_files_parallel faults clock config files dry_run service =
     process_files_sequential faults clock config files 0 dry_run service"

definition aggregate_results :: "FileProcessingResult list \<Rightarrow> Service \<Rightarrow> Service" where
  "aggregate_results results service =
     service\<lparr> stats := (stats service)
                \<lparr> total_records_processed := sum_list (map records_processed results),
                  total_records_inserted := sum_list (map records_inserted results) \<rparr> \<rparr>"

text \<open>
  \<^verbatim>\<open>ingest_directory\<close>. \<open>discovered\<close> is what \<^verbatim>\<open>discover_argo_files\<close> returns for the
  directory and patterns of the call: the matching files, without duplicates, sorted.
\<close>

definition ingest_directory ::
  "faults \<Rightarrow> (nat \<Rightarrow> datetime) \<Rightarrow> IngestionConfig \<Rightarrow> NetCDFFile list \<Rightarrow> bool \<Rightarrow> Service
     \<Rightarrow> IngestionSummary \<times> Service" where
  "ingest_directory faults clock config discovered dry_run service =
     (let service1 = service\<lparr>stats := (stats service)\<lparr>files_discovered := length discovered\<rparr>\<rparr>
      in if discovered = [] then (create_summary service1, service1)
         else
           (case (if 1 < max_workers config
                  then process_files_parallel faults clock config discovered dry_run service1
                  else process_files_sequential faults clock config discovered 0 dry_run service1) of
              (results, service2) \<Rightarrow>
                (let service3 = aggregate_results results service2
                 in (create_summary service3, service3))))"

text \<open>
  The filter loop of \<^verbatim>\<open>resume_ingestion\<close>: the list \<^verbatim>\<open>files_to_process\<close> and the
  statistics with the skipped files counted.
\<close>

fun select_files_to_process ::
  "faults \<Rightarrow> NetCDFFile list \<Rightarrow> Service \<Rightarrow> NetCDFFile list \<times> Service" where
  "select_files_to_process faults [] service = ([], service)"
| "select_files_to_process faults (f # rest) service =
     (if (case get_ingestion_status faults (nc_path f) (database service) of
            None \<Rightarrow> True
          | Some row \<Rightarrow> l_status row \<noteq> ''success'')
      then (case select_files_to_process faults rest service of
              (files_to_process, service1) \<Rightarrow> (f # files_to_process, service1))
      else select_files_to_process faults rest
             (service\<lparr>stats := (stats service)\<lparr>files_skipped := files_skipped (stats service) + 1\<rparr>\<rparr>))"

text \<open>
  \<^verbatim>\<open>resume_ingestion\<close>. Both calls of \<^verbatim>\<open>discover_argo_files\<close>, the one here and the one
  inside \<^verbatim>\<open>ingest_directory\<close>, have the same directory and patterns and so the same
  answer \<open>discovered\<close>. The last statement passes the directory and the patterns to
  \<^verbatim>\<open>ingest_directory\<close>, not \<^verbatim>\<open>files_to_process\<close>.
\<close>

definition resume_ingestion ::
  "faults \<Rightarrow> (nat \<Rightarrow> datetime) \<Rightarrow> IngestionConfig \<Rightarrow> NetCDFFile list \<Rightarrow> bool \<Rightarrow> Service
     \<Rightarrow> IngestionSummary \<times> Service" where
  "resume_ingestion faults clock config discovered skip_successful service =
     (case (if skip_successful then select_files_to_process faults discovered service
            else (discovered, service)) of
        (files_to_process, service1) \<Rightarrow>
          ingest_directory faults clock config discovered False service1)"

section \<open>Statement of the retry behaviour\<close>

text \<open>
  What a run that fails up to attempt \<open>k\<close> should leave behind: a call at each attempt
  \<open>0, \<dots>, k\<close> and, between two calls, a sleep of the configured delay.
\<close>
definition retry_trace :: "IngestionConfig \<Rightarrow> nat \<Rightarrow> retry_event list" where
  "retry_trace config k =
     concat (map (\<lambda>attempt. [Call attempt,
                             Sleep (if exponential_backoff config
                                    then retry_delay config * 2 ^ attempt
                                    else retry_delay config)]) [0..<k])
     @ [Call k]"
definition sleeps_before :: "IngestionConfig \<Rightarrow> nat \<Rightarrow> nat \<Rightarrow> retry_event list" where
  "sleeps_before config a k =
     concat (map (\<lambda>attempt. [Call attempt, Sleep (backoff_delay config attempt)]) [a..<k])"

section \<open>Statement of the frame of the float upsert\<close>

text \<open>
  Two float rows that agree on every column except, possibly, the four that the conflict
  clause writes: putting the old values of those four back into the new row gives the old
  row.
\<close>
definition only_mutable_changed :: "ArgoFloat \<Rightarrow> ArgoFloat \<Rightarrow> bool" where
  "only_mutable_changed old new =
     (new\<lparr> f_last_contact_date := f_last_contact_date old,
           f_total_profiles := f_total_profiles old,
           f_status := f_status old,
           f_last_profile_date := f_last_profile_date old \<rparr> = old)"

section \<open>Example inputs\<close>

text \<open>
  The profile of the test suite's mapper fixture (taken on 2023-01-01), and a profile
  model for it.
\<close>
definition sample_profile :: ArgoProfile where
  "sample_profile =
     \<lparr> float_id = ''7900522'', cycle_number = 1, profile_id = ''7900522_1'', data_mode = ''R'',
       latitude = Fin 45.5, longitude = Fin (-125.2), date_time = 2303683200000000,
       platform_number = Some ''7900522'', project_name = Some ''Test Project'',
       pi_name = Some ''Test Scientist'',
       pressure = Some [Fin 0, Fin 10, Fin 20, Fin 30], pressure_qc = None,
       temperature = Some [Fin 15, Fin 14.5, Fin 14, Fin 13.5],
       temperature_qc = Some [''1'', ''1'', ''1'', ''1''],
       temperature_adjusted = None, temperature_adjusted_qc = None,
       salinity = Some [Fin 35, Fin 35.1, Fin 35.2, Fin 35.3],
       salinity_qc = Some [''1'', ''1'', ''1'', ''1''],
       salinity_adjusted = None, salinity_adjusted_qc = None,
       oxygen = None, oxygen_qc = None, chlorophyll = None, chlorophyll_qc = None,
       position_qc = Some ''1'', date_qc = Some ''1'' \<rparr>"
definition sample_profile_model :: DbArgoProfile where
  "sample_profile_model =
     \<lparr> dp_profile_id = ''7900522_1'', dp_float_id = ''7900522'', dp_cycle_number = 1,
       dp_data_mode = ''R'', dp_latitude = Fin 45.5, dp_longitude = Fin (-125.2),
       dp_measurement_date = 2303683200000000, dp_data_points = Np_int64 4,
       dp_max_pressure = Some (Fin 30), dp_min_pressure = Some (Fin 0),
       dp_quality_flag = ''A'' \<rparr>"

text \<open>One level, pressure only and temperature only.\<close>
definition one_level :: "float64 \<Rightarrow> float64 \<Rightarrow> ArgoProfile" where
  "one_level p t =
     sample_profile\<lparr> pressure := Some [p], temperature := Some [t],
                     temperature_qc := None, salinity := None, salinity_qc := None \<rparr>"

text \<open>
  The default configuration: dates from 1990-01-01 to 2030-01-01, every data mode
  accepted, no geographic or date filter.
\<close>
definition default_validation :: ValidationConfig where
  "default_validation =
     \<lparr> temp_min = Fin (- 5), temp_max = Fin 40, salinity_min = Fin 0, salinity_max = Fin 45,
       latitude_min = Fin (- 90), latitude_max = Fin 90,
       longitude_min = Fin (- 180), longitude_max = Fin 180,
       min_date = 1262304000000000, max_date = 2524608000000000,
       required_variables = [''JULD'', ''LATITUDE'', ''LONGITUDE'', ''PRES'', ''TEMP'', ''PSAL''] \<rparr>"
definition default_config :: IngestionConfig where
  "default_config =
     \<lparr> batch_size = 1000, max_workers = 4, max_retries = 3, retry_delay = 1,
       exponential_backoff = True, max_errors_per_file = 10,
       data_modes = [REAL_TIME, DELAYED_MODE, ADJUSTED],
       geographic_bounds = None, date_range = None, validation = default_validation \<rparr>"
definition empty_database :: Database where
  "empty_database =
     \<lparr> db_floats = [], db_profiles = [], db_measurements = [], db_ingestion_log = [],
       db_next_uuid = 0 \<rparr>"

text \<open>A well-formed file at a path, holding the given profile records.\<close>
definition sample_file :: "string \<Rightarrow> ArgoProfile option list \<Rightarrow> NetCDFFile" where
  "sample_file p records =
     \<lparr> nc_path = p, nc_exists = True, nc_size = 4096, nc_open_error = None,
       nc_dims = [(''N_PROF'', length records), (''N_LEVELS'', 4)],
       nc_variables = [''PLATFORM_NUMBER'', ''CYCLE_NUMBER'', ''JULD'', ''LATITUDE'',
                       ''LONGITUDE'', ''PRES'', ''TEMP'', ''PSAL''],
       nc_profiles = records \<rparr>"

text \<open>The fixture with latitude 95, and a later cycle of the same float (2023-01-11).\<close>
definition bad_latitude_profile :: ArgoProfile where
  "bad_latitude_profile = sample_profile\<lparr>latitude := Fin 95\<rparr>"
definition second_cycle_profile :: ArgoProfile where
  "second_cycle_profile =
     sample_profile\<lparr> cycle_number := 2, profile_id := ''7900522_2'',
                     date_time := 2304547200000000 \<rparr>"

text \<open>The fixture with a data mode that is no member of \<^verbatim>\<open>DataMode\<close>.\<close>
definition unknown_mode_profile :: ArgoProfile where
  "unknown_mode_profile = sample_profile\<lparr>data_mode := ''X''\<rparr>"
definition one_error_config :: IngestionConfig where
  "one_error_config = default_config\<lparr>max_errors_per_file := 1\<rparr>"

text \<open>A stored row of the fixture's float, and the table that holds just that row.\<close>
definition stored_float :: ArgoFloat where
  "stored_float =
     (new_float sample_profile)\<lparr> f_id := Some 0, f_institution := Some ''Test Institute'',
                                  f_created_at := Some 2303683200000000,
                                  f_updated_at := Some 2303683200000000 \<rparr>"
definition one_float_database :: Database where
  "one_float_database = empty_database\<lparr> db_floats := [stored_float], db_next_uuid := 1 \<rparr>"

text \<open>
  A file whose only profile is rejected, and an engine on which writing the audit-log
  row fails while everything else succeeds.
\<close>
definition rejected_only_file :: NetCDFFile where
  "rejected_only_file = sample_file ''rejected.nc'' [Some bad_latitude_profile]"


text \<open>
  A directory of two files after an earlier run: the audit log says that \<^verbatim>\<open>a.nc\<close>
  succeeded and \<^verbatim>\<open>b.nc\<close> failed. The service is fresh, with one worker.
\<close>
definition file_a :: NetCDFFile where
  "file_a = sample_file ''a.nc'' [Some sample_profile]"
definition file_b :: NetCDFFile where
  "file_b = sample_file ''b.nc'' [Some second_cycle_profile]"
definition earlier_run_log :: "DataIngestionLog list" where
  "earlier_run_log =
     [\<lparr> l_filename = ''a.nc'', l_file_path = ''a.nc'', l_status = ''success'',
         l_profiles_processed = 1, l_started_at = 2390000000000000,
         l_completed_at = Some 2390000000000000, l_error_message = None \<rparr>,
      \<lparr> l_filename = ''b.nc'', l_file_path = ''b.nc'', l_status = ''failed'',
         l_profiles_processed = 0, l_started_at = 2390000000000001,
         l_completed_at = None,
         l_error_message = Some [Lit ''Database error for '', Str ''b.nc'', Lit '': '',
                                 Exc (SQLAlchemyError ''connection lost'')] \<rparr>]"
definition resumed_service :: Service where
  "resumed_service =
     \<lparr> stats = \<lparr> files_discovered = 0, files_processed = 0, files_successful = 0,
                 files_failed = 0, files_skipped = 0, total_records_processed = 0,
                 total_records_inserted = 0 \<rparr>,
       database = empty_database\<lparr>db_ingestion_log := earlier_run_log\<rparr> \<rparr>"
definition sequential_config :: IngestionConfig where
  "sequential_config = default_config\<lparr>max_workers := 1\<rparr>"
definition resume_clock :: "nat \<Rightarrow> datetime" where
  "resume_clock i = 2400000000000000 + int i"

section \<open>Measurement mapping: the levels that are kept\<close>

lemma level_step_acc:
  "level_step profile pres i acc = acc @ level_step profile pres i []"
  by (simp add: level_step_def Let_def)

lemma fold_level_step:
  "fold (level_step profile pres) idxs acc =
     acc @ concat (map (\<lambda>k. level_step profile pres k []) idxs)"
proof (induction idxs arbitrary: acc)
  case Nil
  show ?case by simp
next
  case (Cons k ks)
  have "fold (level_step profile pres) (k # ks) acc =
          fold (level_step profile pres) ks (level_step profile pres k acc)" by simp
  also have "\<dots> = level_step profile pres k acc @ concat (map (\<lambda>k. level_step profile pres k []) ks)"
    by (rule Cons.IH)
  also have "level_step profile pres k acc = acc @ level_step profile pres k []"
    by (rule level_step_acc)
  finally show ?case by simp
qed

lemma add_temperature_fields:
  "m_temperature (add_temperature_data m profile i) =
     (case level_value (temperature profile) i of None \<Rightarrow> m_temperature m | Some v \<Rightarrow> Some v)"
  "m_temperature_adjusted (add_temperature_data m profile i) =
     (case level_value (temperature_adjusted profile) i of
        None \<Rightarrow> m_temperature_adjusted m | Some v \<Rightarrow> Some v)"
  "m_salinity (add_temperature_data m profile i) = m_salinity m"
  "m_salinity_adjusted (add_temperature_data m profile i) = m_salinity_adjusted m"
  "m_oxygen (add_temperature_data m profile i) = m_oxygen m"
  "m_chlorophyll_a (add_temperature_data m profile i) = m_chlorophyll_a m"
  "m_pressure (add_temperature_data m profile i) = m_pressure m"
  "m_profile_id (add_temperature_data m profile i) = m_profile_id m"
  by (simp_all add: add_temperature_data_def Let_def split: option.splits)

lemma add_salinity_fields:
  "m_salinity (add_salinity_data m profile i) =
     (case level_value (salinity profile) i of None \<Rightarrow> m_salinity m | Some v \<Rightarrow> Some v)"
  "m_salinity_adjusted (add_salinity_data m profile i) =
     (case level_value (salinity_adjusted profile) i of
        None \<Rightarrow> m_salinity_adjusted m | Some v \<Rightarrow> Some v)"
  "m_temperature (add_salinity_data m profile i) = m_temperature m"
  "m_temperature_adjusted (add_salinity_data m profile i) = m_temperature_adjusted m"
  "m_oxygen (add_salinity_data m profile i) = m_oxygen m"
  "m_chlorophyll_a (add_salinity_data m profile i) = m_chlorophyll_a m"
  "m_pressure (add_salinity_data m profile i) = m_pressure m"
  "m_profile_id (add_salinity_data m profile i) = m_profile_id m"
  by (simp_all add: add_salinity_data_def Let_def split: option.splits)

lemma add_optional_fields:
  "m_oxygen (add_optional_measurements m profile i) =
     (case level_value (oxygen profile) i of None \<Rightarrow> m_oxygen m | Some v \<Rightarrow> Some v)"
  "m_chlorophyll_a (add_optional_measurements m profile i) =
     (case level_value (chlorophyll profile) i of None \<Rightarrow> m_chlorophyll_a m | Some v \<Rightarrow> Some v)"
  "m_temperature (add_optional_measurements m profile i) = m_temperature m"
  "m_temperature_adjusted (add_optional_measurements m profile i) = m_temperature_adjusted m"
  "m_salinity (add_optional_measurements m profile i) = m_salinity m"
  "m_salinity_adjusted (add_optional_measurements m profile i) = m_salinity_adjusted m"
  "m_pressure (add_optional_measurements m profile i) = m_pressure m"
  "m_profile_id (add_optional_measurements m profile i) = m_profile_id m"
  by (simp_all add: add_optional_measurements_def Let_def split: option.splits)

lemma build_measurement_fields:
  "scientific_fields (build_measurement profile pres i) = level_readings profile i"
  "m_pressure (build_measurement profile pres i) = Some (pres ! i)"
  "m_profile_id (build_measurement profile pres i) = profile_id profile"
  by (simp_all add: build_measurement_def Let_def scientific_fields_def level_readings_def
        add_temperature_fields add_salinity_fields add_optional_fields new_measurement_def
        split: option.splits)

lemma has_valid_data_fields:
  "m_pressure m \<noteq> None \<Longrightarrow>
   has_valid_data m = (\<not> list_all (\<lambda>v. v = None) (scientific_fields m))"
  by (auto simp: has_valid_data_def scientific_fields_def Let_def)

lemma level_step_kept:
  "level_step profile pres i [] =
     (if isnan (pres ! i) \<or> list_all (\<lambda>v. v = None) (level_readings profile i) then []
      else [build_measurement profile pres i])"
  using has_valid_data_fields [of "build_measurement profile pres i"]
  by (simp add: level_step_def Let_def build_measurement_fields)

text \<open>
  C4, as the code has it. The measurements of a profile are the concatenation, in level
  order, of what each pressure level yields. A level yields nothing when its pressure is
  NaN, or when every scientific reading at that level is absent or NaN. Every other level
  yields exactly one measurement, which carries the profile identifier and the pressure,
  and whose scientific fields are the readings of the level: the value where the profile
  has one that is not NaN, null everywhere else. So a level with exactly one such reading
  gives a measurement with the other scientific fields null. The test is \<^verbatim>\<open>np.isnan\<close>,
  not finiteness.
\<close>

theorem measurement_levels:
  assumes "pressure profile = Some pres" and "i < length pres"
  shows "create_measurement_models profile pm =
           concat (map (\<lambda>k. level_step profile pres k []) [0..<length pres])
       \<and> (if isnan (pres ! i) \<or> list_all (\<lambda>v. v = None) (level_readings profile i)
          then level_step profile pres i [] = []
          else (\<exists>m. level_step profile pres i [] = [m] \<and> m_profile_id m = profile_id profile
                  \<and> m_pressure m = Some (pres ! i)
                  \<and> scientific_fields m = level_readings profile i))"
proof -
  have "create_measurement_models profile pm =
          concat (map (\<lambda>k. level_step profile pres k []) [0..<length pres])"
    using assms(1) by (simp add: create_measurement_models_def fold_level_step)
  moreover have "level_step profile pres i [] = []"
    if "isnan (pres ! i) \<or> list_all (\<lambda>v. v = None) (level_readings profile i)"
    using that by (simp add: level_step_kept)
  moreover have "\<exists>m. level_step profile pres i [] = [m] \<and> m_profile_id m = profile_id profile
                  \<and> m_pressure m = Some (pres ! i)
                  \<and> scientific_fields m = level_readings profile i"
    if "\<not> (isnan (pres ! i) \<or> list_all (\<lambda>v. v = None) (level_readings profile i))"
    using that by (simp add: level_step_kept build_measurement_fields)
  ultimately show ?thesis by presburger
qed

text \<open>
  The theorem at the temperature-only profile with pressure 0, 10, NaN and temperature
  15, NaN, 13: level 0 is kept with salinity, oxygen and chlorophyll null.
\<close>

theorem measurement_levels_witness:
  "pressure (sample_profile\<lparr>pressure := Some [Fin 0, Fin 10, NaN],
                            temperature := Some [Fin 15, NaN, Fin 13], salinity := None\<rparr>)
     = Some [Fin 0, Fin 10, NaN]
   \<and> (0::nat) < length [Fin 0, Fin 10, NaN]
   \<and> (\<exists>m. level_step (sample_profile\<lparr>pressure := Some [Fin 0, Fin 10, NaN],
                            temperature := Some [Fin 15, NaN, Fin 13], salinity := None\<rparr>)
             [Fin 0, Fin 10, NaN] 0 [] = [m]
          \<and> scientific_fields m = [Some (Fin 15), None, None, None, None, None])"
  using measurement_levels [of "sample_profile\<lparr>pressure := Some [Fin 0, Fin 10, NaN],
                            temperature := Some [Fin 15, NaN, Fin 13], salinity := None\<rparr>"
                            "[Fin 0, Fin 10, NaN]" 0 sample_profile_model]
  by (auto simp: sample_profile_def level_readings_def level_value_def isnan_def)

text \<open>
  C4 as stated fails on infinities, which are not finite and not NaN: a level whose
  pressure is infinite is kept, and so is a finite-pressure level whose only other
  reading is infinite.
\<close>

theorem non_finite_level_counterexample:
  "\<not> isfinite PosInf
   \<and> create_measurement_models (one_level PosInf (Fin 15)) sample_profile_model
       = [(new_measurement ''7900522_1'' PosInf PosInf)\<lparr>m_temperature := Some (Fin 15)\<rparr>]
   \<and> create_measurement_models (one_level (Fin 10) PosInf) sample_profile_model
       = [(new_measurement ''7900522_1'' (Fin 10) (Fin (10 / 1.025)))\<lparr>m_temperature := Some PosInf\<rparr>]"
  by (simp add: create_measurement_models_def one_level_def sample_profile_def level_step_def
        build_measurement_def add_temperature_data_def add_salinity_data_def
        add_optional_measurements_def has_valid_data_def level_value_def level_qc_def
        new_measurement_def pressure_to_depth_def isnan_def isfinite_def Let_def)

section \<open>Retries\<close>

lemma backoff_delay_nonneg: "0 \<le> retry_delay config \<Longrightarrow> 0 \<le> backoff_delay config attempt"
  by (simp add: backoff_delay_def)

lemma retry_attempts_prefix:
  assumes fails: "\<And>j. a \<le> j \<Longrightarrow> j < k \<Longrightarrow> \<exists>e. operation_func j = Raises e \<and> is_sqlalchemy_error e"
    and delay: "0 \<le> retry_delay config"
    and bound: "int k \<le> retries" and ak: "a \<le> k" and kM: "k \<le> M"
  shows "retry_attempts config operation_func retries [a..<M] trace =
           retry_attempts config operation_func retries [k..<M]
             (trace @ sleeps_before config a k)"
  using fails bound ak kM
proof (induction k)
  case 0
  then show ?case by (simp add: sleeps_before_def)
next
  case (Suc k)
  show ?case
  proof (cases "a = Suc k")
    case True
    then show ?thesis by (simp add: sleeps_before_def)
  next
    case False
    with Suc.prems have ak: "a \<le> k" by simp
    have IH: "retry_attempts config operation_func retries [a..<M] trace =
           retry_attempts config operation_func retries [k..<M]
             (trace @ sleeps_before config a k)"
      using Suc.IH Suc.prems ak by simp
    obtain e where e: "operation_func k = Raises e" "is_sqlalchemy_error e"
      using Suc.prems(1) [of k] ak by auto
    have split: "[k..<M] = k # [Suc k..<M]"
      using Suc.prems by (simp add: upt_conv_Cons)
    have ne: "int k \<noteq> retries" using Suc.prems by simp
    have ext: "sleeps_before config a (Suc k) =
                 sleeps_before config a k @ [Call k, Sleep (backoff_delay config k)]"
      using ak by (simp add: sleeps_before_def)
    show ?thesis
      using backoff_delay_nonneg [OF delay, of k]
      by (simp add: IH split e ne ext)
  qed
qed

text \<open>
  C7. With a retry count and a delay that are not negative, and an operation whose first
  \<open>k\<close> calls raise persistence-layer exceptions (\<open>k\<close> at most \<^verbatim>\<open>max_retries\<close>): if call
  \<open>k\<close> returns, its value is returned at once; if \<open>k\<close> is \<^verbatim>\<open>max_retries\<close> and call \<open>k\<close>
  raises such an exception too, that last exception is raised. In both cases the calls
  made are exactly those of attempts \<open>0, \<dots>, k\<close>, with a sleep of
  \<^verbatim>\<open>retry_delay * 2 ** attempt\<close> (or of \<^verbatim>\<open>retry_delay\<close> without exponential backoff) after
  each failed attempt but the last.
\<close>

theorem execute_with_retry_behaviour:
  assumes "0 \<le> max_retries config" and "0 \<le> retry_delay config"
    and "k \<le> nat (max_retries config)"
    and "\<And>j. j < k \<Longrightarrow> \<exists>e. operation_func j = Raises e \<and> is_sqlalchemy_error e"
  shows "(\<forall>v. operation_func k = Returns v \<longrightarrow>
            execute_with_retry config operation_func None = (Inr (Some v), retry_trace config k))
       \<and> (\<forall>e. k = nat (max_retries config) \<and> operation_func k = Raises e \<and> is_sqlalchemy_error e \<longrightarrow>
            execute_with_retry config operation_func None = (Inl e, retry_trace config k))"
proof -
  let ?M = "nat (max_retries config + 1)"
  have kM: "k < ?M" using assms(1,3) by simp
  have pre: "retry_attempts config operation_func (max_retries config) [0..<?M] [] =
           retry_attempts config operation_func (max_retries config) [k..<?M]
             ([] @ sleeps_before config 0 k)"
    by (rule retry_attempts_prefix) (use assms kM in auto)
  have split: "[k..<?M] = k # [Suc k..<?M]" using kM by (simp add: upt_conv_Cons)
  have tr: "sleeps_before config 0 k @ [Call k] = retry_trace config k"
    by (simp add: sleeps_before_def retry_trace_def backoff_delay_def)
  have run: "execute_with_retry config operation_func None =
               retry_attempts config operation_func (max_retries config) (k # [Suc k..<?M])
                 (sleeps_before config 0 k)"
    using pre split by (simp add: execute_with_retry_def Let_def)
  have ok: "execute_with_retry config operation_func None = (Inr (Some v), retry_trace config k)"
    if "operation_func k = Returns v" for v
    using that tr by (simp add: run)
  have exhausted: "execute_with_retry config operation_func None = (Inl e, retry_trace config k)"
    if "k = nat (max_retries config)" "operation_func k = Raises e" "is_sqlalchemy_error e" for e
  proof -
    have "int k = max_retries config" using that(1) assms(1) by simp
    then show ?thesis using that(2,3) tr by (simp add: run)
  qed
  show ?thesis using ok exhausted by blast
qed

text \<open>
  The default configuration (three retries, delay 1, exponential backoff): an operation
  that always fails is called four times with sleeps 1, 2, 4; one that succeeds at its
  third call returns after sleeps 1, 2.
\<close>

theorem execute_with_retry_behaviour_witness:
  "execute_with_retry default_config (\<lambda>attempt. Raises (SQLAlchemyError ''lock timeout'') :: nat outcome)
      None
     = (Inl (SQLAlchemyError ''lock timeout''),
        [Call 0, Sleep 1, Call 1, Sleep 2, Call 2, Sleep 4, Call 3])
   \<and> execute_with_retry default_config
        (\<lambda>attempt. if attempt < 2 then Raises (IntegrityError ''busy'') else Returns (7::nat)) None
     = (Inr (Some 7), [Call 0, Sleep 1, Call 1, Sleep 2, Call 2])"
proof -
  have cfg: "0 \<le> max_retries default_config" "0 \<le> retry_delay default_config"
    by (simp_all add: default_config_def)
  have a: "execute_with_retry default_config (\<lambda>attempt. Raises (SQLAlchemyError ''lock timeout'') :: nat outcome)
      None = (Inl (SQLAlchemyError ''lock timeout''), retry_trace default_config 3)"
    using execute_with_retry_behaviour [OF cfg, of 3 "\<lambda>attempt. Raises (SQLAlchemyError ''lock timeout'')"]
    by (simp add: default_config_def is_sqlalchemy_error_def)
  have b: "execute_with_retry default_config
        (\<lambda>attempt. if attempt < 2 then Raises (IntegrityError ''busy'') else Returns (7::nat)) None
     = (Inr (Some 7), retry_trace default_config 2)"
    using execute_with_retry_behaviour [OF cfg, of 2
        "\<lambda>attempt. if attempt < 2 then Raises (IntegrityError ''busy'') else Returns (7::nat)"]
    by (simp add: default_config_def is_sqlalchemy_error_def)
  have t: "retry_trace default_config 3 = [Call 0, Sleep 1, Call 1, Sleep 2, Call 2, Sleep 4, Call 3]"
      "retry_trace default_config 2 = [Call 0, Sleep 1, Call 1, Sleep 2, Call 2]"
    by (simp_all add: retry_trace_def default_config_def upt_rec)
  show ?thesis using a b t by simp
qed

section \<open>The scan of a file and its error budget\<close>

lemma one_error_budget: "max_errors_per_file one_error_config = 1"
  by (simp add: one_error_config_def)

lemma validate_bad_latitude:
  "validate_profile one_error_config bad_latitude_profile r =
     Inr (False, r\<lparr>errors := errors r @
        [[Lit ''Profile '', Str ''7900522_1'', Lit '': '',
          Lit ''Latitude '', Flt (Fin 95), Lit '' out of bounds'']]\<rparr>)"
  by (simp add: validate_profile_def bad_latitude_profile_def sample_profile_def
        one_error_config_def default_config_def
        default_validation_def bound_errors_def in_range_def geographic_filter_rejects_def
        date_filter_rejects_def DataMode_of_def range_warnings_def none_in_range_def
        profile_message_def Let_def)

lemma validate_sample:
  "validate_profile one_error_config sample_profile r = Inr (True, r)"
  by (simp add: validate_profile_def sample_profile_def one_error_config_def default_config_def
        default_validation_def bound_errors_def in_range_def geographic_filter_rejects_def
        date_filter_rejects_def DataMode_of_def range_warnings_def none_in_range_def
        profile_message_def Let_def)

lemma validate_unknown_mode:
  "validate_profile one_error_config unknown_mode_profile r = Inl (ValueError ''X'')"
  by (simp add: validate_profile_def unknown_mode_profile_def sample_profile_def
        one_error_config_def default_config_def
        default_validation_def bound_errors_def in_range_def geographic_filter_rejects_def
        date_filter_rejects_def DataMode_of_def Let_def)

text \<open>
  C5 on the code. The budget test \<^verbatim>\<open>len(result.errors) >= max_errors_per_file\<close> counts
  every recorded error, those of the validation rules included, but it is reached from
  the \<^verbatim>\<open>except\<close> clause only. With a budget of one error, two profiles at latitude 95
  record two errors and are counted as skipped, and the scan goes on: the third, valid
  profile is read and accepted. On the sibling path, a profile whose validation raises,
  the same budget stops the scan after the first record: one error, one record skipped,
  and the valid second record is never read.
\<close>

theorem rejected_profiles_escape_error_budget:
  "max_errors_per_file one_error_config = 1
   \<and> fst (parse_profiles one_error_config
             [Some bad_latitude_profile, Some bad_latitude_profile, Some sample_profile] 0
             (new_result ''a.nc'' False)) = [sample_profile]
   \<and> length (errors (snd (parse_profiles one_error_config
             [Some bad_latitude_profile, Some bad_latitude_profile, Some sample_profile] 0
             (new_result ''a.nc'' False)))) = 2
   \<and> records_skipped (snd (parse_profiles one_error_config
             [Some bad_latitude_profile, Some bad_latitude_profile, Some sample_profile] 0
             (new_result ''a.nc'' False))) = 2
   \<and> fst (parse_profiles one_error_config [Some unknown_mode_profile, Some sample_profile] 0
             (new_result ''a.nc'' False)) = []
   \<and> length (errors (snd (parse_profiles one_error_config
             [Some unknown_mode_profile, Some sample_profile] 0
             (new_result ''a.nc'' False)))) = 1
   \<and> records_skipped (snd (parse_profiles one_error_config
             [Some unknown_mode_profile, Some sample_profile] 0
             (new_result ''a.nc'' False))) = 1"
  by (simp add: validate_bad_latitude validate_sample validate_unknown_mode new_result_def
        one_error_budget Let_def)

section \<open>Float reconciliation in one batch\<close>

lemma get_or_create_float_cached:
  "float_cache (float_id profile) = Some cached \<Longrightarrow>
     get_or_create_float float_cache profile session = (cached, float_cache)"
  by (simp add: get_or_create_float_def)

text \<open>
  C3 on the code: two profiles of one new float, the second ten days later, mapped in one
  batch. The second sighting hits the mapper's cache, which returns before the update
  branch; the float ends with \<^verbatim>\<open>total_profiles\<close> 1 and the first profile's date as its
  last profile date, where the claim has 2 and the later date.
\<close>

theorem cached_float_not_updated:
  "float_id second_cycle_profile = float_id sample_profile
   \<and> date_time sample_profile < date_time second_cycle_profile
   \<and> map f_total_profiles
        (fst (batch_map_profiles [sample_profile, second_cycle_profile] default_config empty_database))
       = [Some 1]
   \<and> map f_last_profile_date
        (fst (batch_map_profiles [sample_profile, second_cycle_profile] default_config empty_database))
       = [Some (date_time sample_profile)]"
  by (simp add: batch_map_profiles_def map_profile_to_models_def get_or_create_float_def
        second_cycle_profile_def sample_profile_def empty_database_def new_float_def Let_def)

section \<open>The frame of the float upsert\<close>

lemma only_mutable_changed_refl: "only_mutable_changed r r"
  by (simp add: only_mutable_changed_def)

lemma only_mutable_changed_trans:
  "only_mutable_changed a b \<Longrightarrow> only_mutable_changed b c \<Longrightarrow> only_mutable_changed a c"
  unfolding only_mutable_changed_def
  by (cases a, cases b, cases c) simp

lemma only_mutable_changed_conflict: "only_mutable_changed row (float_on_conflict excluded row)"
  by (simp add: only_mutable_changed_def float_on_conflict_def)

lemma upsert_float_row_frame:
  assumes "i < length (db_floats session)"
  shows "i < length (db_floats (upsert_float_row now float_model session))
       \<and> only_mutable_changed (db_floats session ! i)
            (db_floats (upsert_float_row now float_model session) ! i)"
  using assms
  by (simp add: upsert_float_row_def Let_def nth_append only_mutable_changed_refl
        only_mutable_changed_conflict)

lemma fold_upsert_float_row_frame:
  assumes "i < length (db_floats session)"
  shows "i < length (db_floats (fold (upsert_float_row now) floats session))
       \<and> only_mutable_changed (db_floats session ! i)
            (db_floats (fold (upsert_float_row now) floats session) ! i)"
  using assms
proof (induction floats arbitrary: session)
  case Nil
  then show ?case by (simp add: only_mutable_changed_refl)
next
  case (Cons float_model floats)
  let ?s1 = "upsert_float_row now float_model session"
  have one: "i < length (db_floats ?s1)"
    "only_mutable_changed (db_floats session ! i) (db_floats ?s1 ! i)"
    using upsert_float_row_frame [OF Cons.prems] by simp_all
  have rest: "i < length (db_floats (fold (upsert_float_row now) floats ?s1))"
    "only_mutable_changed (db_floats ?s1 ! i) (db_floats (fold (upsert_float_row now) floats ?s1) ! i)"
    using Cons.IH [OF one(1)] by simp_all
  show ?case
    using rest one(2) only_mutable_changed_trans by auto
qed

lemma only_mutable_changed_columns:
  assumes "only_mutable_changed old new"
  shows "f_id new = f_id old" "f_float_id new = f_float_id old"
    "f_platform_number new = f_platform_number old" "f_wmo_number new = f_wmo_number old"
    "f_project_name new = f_project_name old" "f_pi_name new = f_pi_name old"
    "f_institution new = f_institution old" "f_wmo_inst_type new = f_wmo_inst_type old"
    "f_deployment_date new = f_deployment_date old"
    "f_last_latitude new = f_last_latitude old" "f_last_longitude new = f_last_longitude old"
    "f_first_profile_date new = f_first_profile_date old"
    "f_created_at new = f_created_at old" "f_updated_at new = f_updated_at old"
  using assms unfolding only_mutable_changed_def
  by (cases old, cases new, simp)+

lemma upsert_single_conflict:
  assumes "i < length (db_floats session)" "f_float_id (db_floats session ! i) = f_float_id float_model"
  shows "db_floats (upsert_float_row now float_model session) ! i =
           float_on_conflict (float_values float_model) (db_floats session ! i)"
proof -
  have "list_ex (\<lambda>row. f_float_id row = f_float_id float_model) (db_floats session)"
    using assms by (auto simp: list_ex_iff intro: nth_mem)
  then show ?thesis
    using assms by (simp add: upsert_float_row_def Let_def float_values_def)
qed

text \<open>
  C6. After a float upsert that did not raise, every row that was in the table is still
  there at its place and differs from what it was at most in \<^verbatim>\<open>last_contact_date\<close>,
  \<^verbatim>\<open>total_profiles\<close>, \<^verbatim>\<open>status\<close> and \<^verbatim>\<open>last_profile_date\<close>; its platform number, project
  and PI names, deployment date and first profile date, among the others, are unchanged.
  When the statement proposes one float with the identifier of the row, the first three
  take the float's values and \<^verbatim>\<open>last_profile_date\<close> takes that of the proposed row, which
  is NULL since the statement supplies no such value.
\<close>

theorem upsert_floats_frame:
  assumes "upsert_floats faults now floats session = Inr (n, session')"
    and "i < length (db_floats session)"
  shows "i < length (db_floats session')
       \<and> only_mutable_changed (db_floats session ! i) (db_floats session' ! i)
       \<and> f_platform_number (db_floats session' ! i) = f_platform_number (db_floats session ! i)
       \<and> f_project_name (db_floats session' ! i) = f_project_name (db_floats session ! i)
       \<and> f_pi_name (db_floats session' ! i) = f_pi_name (db_floats session ! i)
       \<and> f_deployment_date (db_floats session' ! i) = f_deployment_date (db_floats session ! i)
       \<and> f_first_profile_date (db_floats session' ! i) = f_first_profile_date (db_floats session ! i)
       \<and> (\<forall>float_model. floats = [float_model]
              \<and> f_float_id float_model = f_float_id (db_floats session ! i) \<longrightarrow>
            f_last_contact_date (db_floats session' ! i) = f_last_contact_date float_model
          \<and> f_total_profiles (db_floats session' ! i) = f_total_profiles float_model
          \<and> f_status (db_floats session' ! i) = f_status float_model
          \<and> f_last_profile_date (db_floats session' ! i) = None)"
proof -
  have s': "session' = fold (upsert_float_row now) floats session"
    using assms(1) by (auto simp: upsert_floats_def split: if_splits option.splits)
  have frame: "i < length (db_floats session')"
    "only_mutable_changed (db_floats session ! i) (db_floats session' ! i)"
    using fold_upsert_float_row_frame [OF assms(2)] s' by simp_all
  have single: "f_last_contact_date (db_floats session' ! i) = f_last_contact_date float_model
          \<and> f_total_profiles (db_floats session' ! i) = f_total_profiles float_model
          \<and> f_status (db_floats session' ! i) = f_status float_model
          \<and> f_last_profile_date (db_floats session' ! i) = None"
    if "floats = [float_model]" "f_float_id float_model = f_float_id (db_floats session ! i)"
    for float_model
    using that upsert_single_conflict [OF assms(2), of float_model now]
    by (simp add: s' float_on_conflict_def float_values_def)
  show ?thesis
    using frame only_mutable_changed_columns [OF frame(2)] single by blast
qed

text \<open>
  The stored fixture float and its model after the second cycle: the row keeps its
  metadata and takes the new contact date and count.
\<close>

theorem upsert_floats_frame_witness:
  "upsert_floats no_faults 2304547200000000 [update_float stored_float second_cycle_profile]
      one_float_database
     = Inr (1, one_float_database\<lparr> db_floats :=
                 [stored_float\<lparr> f_last_contact_date := Some 2304547200000000,
                                f_total_profiles := Some 2,
                                f_last_profile_date := None \<rparr>] \<rparr>)
   \<and> (0::nat) < length (db_floats one_float_database)
   \<and> f_pi_name (db_floats (one_float_database\<lparr> db_floats :=
                 [stored_float\<lparr> f_last_contact_date := Some 2304547200000000,
                                f_total_profiles := Some 2,
                                f_last_profile_date := None \<rparr>] \<rparr>) ! 0) = Some ''Test Scientist''
   \<and> f_first_profile_date (db_floats (one_float_database\<lparr> db_floats :=
                 [stored_float\<lparr> f_last_contact_date := Some 2304547200000000,
                                f_total_profiles := Some 2,
                                f_last_profile_date := None \<rparr>] \<rparr>) ! 0)
       = Some 2303683200000000"
proof -
  have run: "upsert_floats no_faults 2304547200000000
               [update_float stored_float second_cycle_profile] one_float_database
     = Inr (1, one_float_database\<lparr> db_floats :=
                 [stored_float\<lparr> f_last_contact_date := Some 2304547200000000,
                                f_total_profiles := Some 2,
                                f_last_profile_date := None \<rparr>] \<rparr>)"
    by (simp add: upsert_floats_def no_faults_def upsert_float_row_def one_float_database_def
          empty_database_def stored_float_def new_float_def update_float_def float_values_def
          float_on_conflict_def second_cycle_profile_def sample_profile_def truncated_name_def
          Let_def)
  have len: "(0::nat) < length (db_floats one_float_database)"
    by (simp add: one_float_database_def)
  note frame = upsert_floats_frame [OF run len]
  have old: "f_pi_name (db_floats one_float_database ! 0) = Some ''Test Scientist''"
    "f_first_profile_date (db_floats one_float_database ! 0) = Some 2303683200000000"
    by (simp_all add: one_float_database_def stored_float_def new_float_def sample_profile_def
          truncated_name_def)
  from frame have "f_pi_name (db_floats (one_float_database\<lparr> db_floats :=
                 [stored_float\<lparr> f_last_contact_date := Some 2304547200000000,
                                f_total_profiles := Some 2,
                                f_last_profile_date := None \<rparr>] \<rparr>) ! 0)
                   = f_pi_name (db_floats one_float_database ! 0)"
    by blast
  moreover from frame have "f_first_profile_date (db_floats (one_float_database\<lparr> db_floats :=
                 [stored_float\<lparr> f_last_contact_date := Some 2304547200000000,
                                f_total_profiles := Some 2,
                                f_last_profile_date := None \<rparr>] \<rparr>) ! 0)
                   = f_first_profile_date (db_floats one_float_database ! 0)"
    by blast
  ultimately show ?thesis
    using run len old by presburger
qed

section \<open>Files without an accepted profile\<close>

text \<open>
  C10. When the structural pre-validation passes and the parser returns success with no
  accepted profile, \<^verbatim>\<open>ingest_file\<close> returns the parser's result marked failed, with
  \<^verbatim>\<open>No valid profiles found in file\<close> appended to its errors, and the tables are
  untouched: nothing is mapped, written or logged.
\<close>

theorem ingest_file_no_valid_profiles:
  assumes "fst (validate_netcdf_file f)"
    and "success (parse_file config f)"
    and "accepted_profiles (parse_file config f) = []"
  shows "ingest_file faults now config f dry_run db =
           ((parse_file config f)\<lparr> errors := errors (parse_file config f)
                                        @ [[Lit ''No valid profiles found in file'']],
                                     success := False \<rparr>, db)"
proof -
  obtain errs where "validate_netcdf_file f = (True, errs)"
    using assms(1) by (cases "validate_netcdf_file f") auto
  then show ?thesis
    using assms(2,3) by (simp add: ingest_file_def Let_def)
qed

lemma validate_bad_latitude_default:
  "validate_profile default_config bad_latitude_profile r =
     Inr (False, r\<lparr>errors := errors r @
        [[Lit ''Profile '', Str ''7900522_1'', Lit '': '',
          Lit ''Latitude '', Flt (Fin 95), Lit '' out of bounds'']]\<rparr>)"
  by (simp add: validate_profile_def bad_latitude_profile_def sample_profile_def
        default_config_def
        default_validation_def bound_errors_def in_range_def geographic_filter_rejects_def
        date_filter_rejects_def DataMode_of_def range_warnings_def none_in_range_def
        profile_message_def Let_def)

lemma parse_rejected_only_file:
  "parse_file default_config rejected_only_file =
     (new_result ''rejected.nc'' False)
       \<lparr> file_size := 4096,
         errors := [[Lit ''Profile '', Str ''7900522_1'', Lit '': '',
                     Lit ''Latitude '', Flt (Fin 95), Lit '' out of bounds'']],
         records_skipped := 1, records_processed := 0,
         metadata_profiles := Some [], success := True \<rparr>"
proof -
  have v: "required_variables (validation default_config) =
             [''JULD'', ''LATITUDE'', ''LONGITUDE'', ''PRES'', ''TEMP'', ''PSAL'']"
    by (simp add: default_config_def default_validation_def)
  show ?thesis
    by (simp add: parse_file_def rejected_only_file_def sample_file_def v dict_get_def
          parse_single_profile_def validate_bad_latitude_default new_result_def Let_def)
qed

text \<open>A file whose single profile lies at latitude 95.\<close>

theorem ingest_file_no_valid_profiles_witness:
  "fst (validate_netcdf_file rejected_only_file)
   \<and> success (parse_file default_config rejected_only_file)
   \<and> accepted_profiles (parse_file default_config rejected_only_file) = []
   \<and> success (fst (ingest_file no_faults 0 default_config rejected_only_file False empty_database))
       = False
   \<and> last (errors (fst (ingest_file no_faults 0 default_config rejected_only_file False
                          empty_database)))
       = [Lit ''No valid profiles found in file'']
   \<and> snd (ingest_file no_faults 0 default_config rejected_only_file False empty_database)
       = empty_database"
proof -
  have h1: "fst (validate_netcdf_file rejected_only_file)"
    by (simp add: validate_netcdf_file_def rejected_only_file_def sample_file_def Let_def)
  have h2: "success (parse_file default_config rejected_only_file)"
    by (simp add: parse_rejected_only_file)
  have h3: "accepted_profiles (parse_file default_config rejected_only_file) = []"
    by (simp add: parse_rejected_only_file accepted_profiles_def)
  show ?thesis
    using h1 h2 h3
      ingest_file_no_valid_profiles [OF h1 h2 h3, of no_faults 0 False empty_database]
    by simp
qed

section \<open>What a session writes is not stored\<close>

lemma ingest_file_tables: "snd (ingest_file faults now config f dry_run db) = db"
  by (simp add: ingest_file_def Let_def split: prod.splits bool.splits sum.splits)

lemma validate_sample_file: "fst (validate_netcdf_file (sample_file p records))"
  by (simp add: validate_netcdf_file_def sample_file_def Let_def)

section \<open>Failures of the audit log\<close>










section \<open>Ingesting a file twice\<close>

lemma validate_sample_default:
  "validate_profile default_config sample_profile r = Inr (True, r)"
  by (simp add: validate_profile_def sample_profile_def default_config_def
        default_validation_def bound_errors_def in_range_def geographic_filter_rejects_def
        date_filter_rejects_def DataMode_of_def range_warnings_def none_in_range_def
        profile_message_def Let_def)

lemma parse_sample_file:
  "parse_file default_config (sample_file p [Some sample_profile]) =
     (new_result p False)
       \<lparr> file_size := 4096, records_processed := 1,
         metadata_profiles := Some [sample_profile], success := True \<rparr>"
proof -
  have v: "required_variables (validation default_config) =
             [''JULD'', ''LATITUDE'', ''LONGITUDE'', ''PRES'', ''TEMP'', ''PSAL'']"
    by (simp add: default_config_def default_validation_def)
  show ?thesis
    by (simp add: parse_file_def sample_file_def v dict_get_def
          parse_single_profile_def validate_sample_default new_result_def Let_def)
qed

lemma map_one_profile:
  "batch_map_profiles [profile] config db =
     ([fst (get_or_create_float Map.empty profile db)],
      [create_profile_model profile (fst (get_or_create_float Map.empty profile db))],
      create_measurement_models profile
        (create_profile_model profile (fst (get_or_create_float Map.empty profile db))))"
  by (simp add: batch_map_profiles_def map_profile_to_models_def case_prod_beta Let_def)

lemma sample_profile_data_points:
  "dp_data_points (create_profile_model sample_profile float_model) = Np_int64 4"
  by (simp add: create_profile_model_def sample_profile_def isnan_def Let_def)

lemma flush_dirty_floats_no_faults:
  "\<exists>session0. flush_dirty_floats no_faults now floats session = Inr session0"
  by (simp add: flush_dirty_floats_def no_faults_def Let_def)

lemma persist_sample_profile:
  "persist_profiles no_faults now default_config [sample_profile] result db =
     (result, Inl (SQLAlchemyError ''ProgrammingError: cannot adapt type numpy.int64''))"
proof -
  let ?fm = "fst (get_or_create_float Map.empty sample_profile db)"
  obtain session0 where fl: "flush_dirty_floats no_faults now [?fm] db = Inr session0"
    using flush_dirty_floats_no_faults by blast
  have up: "upsert_profiles no_faults [create_profile_model sample_profile ?fm] s
              = Inl (SQLAlchemyError ''ProgrammingError: cannot adapt type numpy.int64'')" for s
    by (simp add: upsert_profiles_def sample_profile_data_points is_numpy_integer_def)
  have bulk: "bulk_insert_models no_faults now default_config
                ([?fm], [create_profile_model sample_profile ?fm],
                 create_measurement_models sample_profile
                   (create_profile_model sample_profile ?fm)) session0
              = Inl (SQLAlchemyError ''ProgrammingError: cannot adapt type numpy.int64'')"
    by (simp add: bulk_insert_models_def upsert_floats_def no_faults_def up [unfolded no_faults_def])
  show ?thesis
    by (simp add: persist_profiles_def map_one_profile transaction_def fl bulk Let_def)
qed

lemma ingest_sample_file:
  "fst (ingest_file no_faults now default_config (sample_file p [Some sample_profile]) False db)
     = database_error (sample_file p [Some sample_profile])
         (SQLAlchemyError ''ProgrammingError: cannot adapt type numpy.int64'')
         (parse_file default_config (sample_file p [Some sample_profile]))"
proof -
  let ?f = "sample_file p [Some sample_profile]"
  obtain errs where v: "validate_netcdf_file ?f = (True, errs)"
    using validate_sample_file [of p "[Some sample_profile]"]
    by (cases "validate_netcdf_file ?f") auto
  have acc: "accepted_profiles (parse_file default_config ?f) = [sample_profile]"
    by (simp add: parse_sample_file accepted_profiles_def)
  have ok: "success (parse_file default_config ?f)"
    by (simp add: parse_sample_file)
  show ?thesis
    unfolding ingest_file_def v by (simp add: Let_def ok acc persist_sample_profile)
qed

lemma measurement_statement_refused:
  "insert_measurement_batches no_faults (Suc n) i (m # ms) acc session
     = Inl (SQLAlchemyError
         ''ProgrammingError: there is no unique or exclusion constraint matching the ON CONFLICT specification'')"
  by (subst insert_measurement_batches.simps)
     (simp add: measurement_upsert_statement_def no_faults_def)

text \<open>
  C2 on the code. The fixture profile in a file of its own, on an engine without errors
  and whatever the tables hold: the first run is marked failed, because the profile
  statement carries the level count as a NumPy integer, which the driver cannot send;
  nothing is stored, so no audit-log row says \<^verbatim>\<open>success\<close>; the second run, on the tables
  the first one left, fails in the same way. The measurement statement of the file, were
  it reached, is refused as well: its conflict target \<^verbatim>\<open>(profile_id, pressure)\<close> has no
  unique index.
\<close>

theorem ingest_file_twice_fails:
  "success (fst (ingest_file no_faults now1 default_config file_a False db)) = False
   \<and> errors (fst (ingest_file no_faults now1 default_config file_a False db))
       = [[Lit ''Database error for '', Str ''a.nc'', Lit '': '',
           Exc (SQLAlchemyError ''ProgrammingError: cannot adapt type numpy.int64'')]]
   \<and> snd (ingest_file no_faults now1 default_config file_a False db) = db
   \<and> success (fst (ingest_file no_faults now2 default_config file_a False
                     (snd (ingest_file no_faults now1 default_config file_a False db)))) = False
   \<and> db_ingestion_log (snd (ingest_file no_faults now2 default_config file_a False
                     (snd (ingest_file no_faults now1 default_config file_a False db))))
       = db_ingestion_log db
   \<and> bulk_insert_measurements no_faults default_config
        (create_measurement_models sample_profile sample_profile_model) db
       = Inl (SQLAlchemyError
           ''ProgrammingError: there is no unique or exclusion constraint matching the ON CONFLICT specification'')"
proof -
  have run: "fst (ingest_file no_faults now default_config file_a False d)
               = database_error file_a
                   (SQLAlchemyError ''ProgrammingError: cannot adapt type numpy.int64'')
                   (parse_file default_config file_a)" for now d
    unfolding file_a_def by (rule ingest_sample_file)
  have path: "nc_path file_a = ''a.nc''"
    by (simp add: file_a_def sample_file_def)
  have parsed: "errors (parse_file default_config file_a) = []"
    unfolding file_a_def by (simp add: parse_sample_file new_result_def)
  have "create_measurement_models sample_profile sample_profile_model \<noteq> []"
    by (simp add: create_measurement_models_def sample_profile_def level_step_def isnan_def
          has_valid_data_def build_measurement_def add_temperature_data_def
          add_salinity_data_def add_optional_measurements_def level_value_def level_qc_def
          new_measurement_def upt_rec Let_def)
  then obtain m ms where levels: "create_measurement_models sample_profile sample_profile_model
                                    = m # ms"
    by (cases "create_measurement_models sample_profile sample_profile_model") auto
  have step: "nat (batch_size default_config) = Suc 999"
    by (simp add: default_config_def)
  have meas: "bulk_insert_measurements no_faults default_config
                (create_measurement_models sample_profile sample_profile_model) db
              = Inl (SQLAlchemyError
                  ''ProgrammingError: there is no unique or exclusion constraint matching the ON CONFLICT specification'')"
    unfolding levels bulk_insert_measurements_def step measurement_statement_refused
    by (simp add: default_config_def)
  show ?thesis
    unfolding ingest_file_tables run using meas
    by (simp add: database_error_def path parsed)
qed

section \<open>Resuming a run\<close>

lemma process_files_sequential_count:
  "files_processed (stats (snd (process_files_sequential faults clock config files i dry_run service)))
     = files_processed (stats service) + length files"
  by (induction files arbitrary: i service) (simp_all add: case_prod_beta Let_def)

lemma ingest_directory_count:
  "s_files_processed (fst (ingest_directory faults clock config files dry_run service))
     = files_processed (stats service) + length files"
  by (simp add: ingest_directory_def Let_def case_prod_beta create_summary_def
        process_files_parallel_def aggregate_results_def process_files_sequential_count)

text \<open>
  C1 on the code. The filter loop of \<^verbatim>\<open>resume_ingestion\<close> selects \<^verbatim>\<open>b.nc\<close> alone, but
  its list is not what gets ingested: the final call discovers the directory again, and
  the summary counts two processed files.
\<close>

theorem resume_reprocesses_every_file:
  "fst (select_files_to_process no_faults [file_a, file_b] resumed_service) = [file_b]
   \<and> s_files_processed
        (fst (resume_ingestion no_faults resume_clock sequential_config [file_a, file_b] True
                resumed_service)) = 2"
proof -
  have sel: "select_files_to_process no_faults [file_a, file_b] resumed_service
               = ([file_b], resumed_service\<lparr>stats := (stats resumed_service)\<lparr>files_skipped := 1\<rparr>\<rparr>)"
    by (simp add: get_ingestion_status_def no_faults_def latest_started_def file_a_def file_b_def
          sample_file_def resumed_service_def earlier_run_log_def empty_database_def)
  let ?svc = "resumed_service\<lparr>stats := (stats resumed_service)\<lparr>files_skipped := 1\<rparr>\<rparr>"
  have res: "resume_ingestion no_faults resume_clock sequential_config [file_a, file_b] True
               resumed_service
             = ingest_directory no_faults resume_clock sequential_config [file_a, file_b] False ?svc"
    unfolding resume_ingestion_def sel by simp
  have count: "s_files_processed
        (fst (resume_ingestion no_faults resume_clock sequential_config [file_a, file_b] True
                resumed_service)) = 2"
    unfolding res ingest_directory_count by (simp add: resumed_service_def)
  with sel show ?thesis by simp
qed

end
